theory Spec2Isabelle
  imports Complex_Main
begin

text \<open>
  A shallow embedding of \<^verbatim>\<open>octoprint/printer.py\<close>: the \<^verbatim>\<open>Printer\<close> with its
  \<^verbatim>\<open>StateMonitor\<close>, the dispatch to the registered observers, and the two worker
  threads \<^verbatim>\<open>GcodeLoader\<close> and \<^verbatim>\<open>SdFileStreamer\<close>. A method is a function on the
  state; a method that can raise returns the state together with the exception, if
  any. A call runs from its start to its end without another thread in between, and
  the run of a loader or uploader thread is a call of its own; the worker thread of
  the StateMonitor runs statement by statement, between the calls of the others.
\<close>

section \<open>Python primitives used by \<^verbatim>\<open>octoprint/printer.py\<close>\<close>

text \<open>
  Strings are byte strings (the file is Python 2), modelled as \<^typ>\<open>string\<close>.
  The exceptions that the modelled code can raise are values of \<open>exn\<close>;
  \<open>Raised\<close> stands for an arbitrary exception thrown by code outside this file
  (an observer's handler).
\<close>

datatype exn = AttributeError | OSError | IOError | ZeroDivisionError | Raised string

text \<open>\<^verbatim>\<open>str.strip()\<close> removes the characters space, TAB, LF, VT, FF and CR from both ends.\<close>

definition is_space :: "char \<Rightarrow> bool" where
  "is_space c = (c \<in> set [CHR '' '', CHR 0x09, CHR 0x0A, CHR 0x0B, CHR 0x0C, CHR 0x0D])"

definition strip :: "string \<Rightarrow> string" where
  "strip s = rev (dropWhile is_space (rev (dropWhile is_space s)))"

definition startswith :: "string \<Rightarrow> string \<Rightarrow> bool" where
  "startswith s p = (take (length p) s = p)"

text \<open>\<^verbatim>\<open>s.find(c)\<close> and \<^verbatim>\<open>s.rfind(c)\<close>: lowest and highest index of \<open>c\<close>, or \<open>-1\<close>.\<close>

definition find_char :: "string \<Rightarrow> char \<Rightarrow> int" where
  "find_char s c = (if c \<in> set s then int (length (takeWhile (\<lambda>x. x \<noteq> c) s)) else - 1)"

definition rfind_char :: "string \<Rightarrow> char \<Rightarrow> int" where
  "rfind_char s c =
     (if c \<in> set s then int (length s) - 1 - int (length (takeWhile (\<lambda>x. x \<noteq> c) (rev s)))
      else - 1)"

text \<open>
  The slices \<^verbatim>\<open>s[:k]\<close> and \<^verbatim>\<open>s[k:]\<close>: a negative bound counts from the end,
  and a bound outside the sequence is clipped.
\<close>

definition slice_to :: "'a list \<Rightarrow> int \<Rightarrow> 'a list" where
  "slice_to s k = (if k < 0 then take (nat (int (length s) + k)) s else take (nat k) s)"

definition slice_from :: "'a list \<Rightarrow> int \<Rightarrow> 'a list" where
  "slice_from s k = (if k < 0 then drop (nat (int (length s) + k)) s else drop (nat k) s)"

text \<open>\<^verbatim>\<open>os.path.basename\<close>: what follows the last slash.\<close>

definition basename :: "string \<Rightarrow> string" where
  "basename p = slice_from p (rfind_char p CHR ''/'' + 1)"

text \<open>
  \<^verbatim>\<open>float(a) / float(b)\<close> on two non-negative integers: the quotient, or
  \<^verbatim>\<open>ZeroDivisionError\<close>. Floats are modelled by the reals; the only quotients a
  statement below depends on are \<open>n / n\<close>, which is exactly \<open>1.0\<close> in floating point too.
\<close>

definition float_div :: "nat \<Rightarrow> nat \<Rightarrow> exn + real" where
  "float_div a b = (if b = 0 then Inl ZeroDivisionError else Inr (real a / real b))"

section \<open>The device file name of an upload\<close>

text \<open>
  The first two statements of \<^verbatim>\<open>SdFileStreamer.run\<close> after the busy check:
  \<^verbatim>\<open>name = self._filename[:self._filename.rfind(".")]\<close>,
  \<^verbatim>\<open>sdFilename = name[:8] + ".GCO"\<close>.
\<close>

definition sdFilename :: "string \<Rightarrow> string" where
  "sdFilename filename =
     (let name = slice_to filename (rfind_char filename CHR ''.'')
      in slice_to name 8 @ ''.GCO'')"

section \<open>Data\<close>

subsection \<open>Commands and the Communicator\<close>

text \<open>
  An entry of a command list is either a line (\<open>Bare\<close>) or the tuple
  \<^verbatim>\<open>(line, lineType)\<close> (\<open>Typed\<close>).
\<close>

datatype gcode = Bare string | Typed string string

text \<open>
  The Communicator (\<^verbatim>\<open>octoprint.util.comm.MachineCom\<close>) lies outside
  \<^verbatim>\<open>printer.py\<close>. An object of it is represented by what the Printer can observe: the
  answers of its query methods, and the log \<open>c_calls\<close> of the action methods that were
  called on it, in call order. \<open>PrintGCode\<close> carries the argument as it is passed, the
  attribute \<^verbatim>\<open>_gcodeList\<close>, which may be \<^verbatim>\<open>None\<close>.
\<close>

datatype comm_call =
    Close
  | SendCommand string
  | PrintGCode "gcode list option"
  | PrintSdFile
  | SelectSdFile string
  | DeleteSdFile string
  | StartSdFileTransfer string
  | EndSdFileTransfer string

record comm =
  c_isOperational :: bool
  c_isPrinting :: bool
  c_isPaused :: bool
  c_isError :: bool
  c_isClosedOrError :: bool
  c_isSdReady :: bool
  c_isBusy :: bool
  c_getStateString :: string
  c_getPrintTime :: "real option"
  c_getPrintTimeRemainingEstimate :: "real option"
  c_calls :: "comm_call list"

subsection \<open>The payloads handed to the StateMonitor and to the observers\<close>

text \<open>
  \<^verbatim>\<open>isReady()\<close> returns the value of an \<^verbatim>\<open>and\<close>/\<^verbatim>\<open>or\<close> chain, which is
  \<^verbatim>\<open>True\<close>, \<^verbatim>\<open>False\<close>, \<^verbatim>\<open>None\<close> or the selected SD file name.
\<close>

datatype ready_value = RNone | RBool bool | RStr string

record state_flags =
  f_operational :: bool
  f_printing :: bool
  f_closedOrError :: bool
  f_error :: bool
  f_loading :: bool
  f_paused :: bool
  f_ready :: ready_value
  f_sdReady :: bool

record state_data =
  st_state :: "int option"
  st_stateString :: string
  st_flags :: state_flags

record job_data =
  jd_filename :: "string option"
  jd_lines :: "nat option"
  jd_estimatedPrintTime :: "string option"
  jd_filament :: "string option"

text \<open>In \<open>gcode_data\<close> the key \<^verbatim>\<open>"mode"\<close> may be absent (\<open>None\<close>).\<close>

record gcode_data =
  gd_filename :: "string option"
  gd_progress :: "real option"
  gd_mode :: "string option"

record upload_data =
  ud_filename :: "string option"
  ud_progress :: "real option"

text \<open>
  Formatted values are kept symbolic: \<open>Millimetres z\<close> is the string
  \<^verbatim>\<open>"%.2f mm" % z\<close>, and \<open>OfSeconds t\<close>, \<open>OfMinutes t\<close> are the strings that
  \<^verbatim>\<open>util.getFormattedTimeDelta\<close> returns for \<^verbatim>\<open>timedelta(seconds=t)\<close> and
  \<^verbatim>\<open>timedelta(minutes=t)\<close>.
\<close>

datatype formatted = Millimetres real | OfSeconds real | OfMinutes real

text \<open>In \<open>progress_data\<close> the key \<^verbatim>\<open>"currentLine"\<close> may be absent (outer \<open>None\<close>).\<close>

record progress_data =
  pd_progress :: "real option"
  pd_currentLine :: "nat option option"
  pd_printTime :: "formatted option"
  pd_printTimeLeft :: "formatted option"

record temperature_data =
  td_currentTime :: int
  td_temp :: real
  td_bedTemp :: real
  td_targetTemp :: real
  td_targetBedTemp :: real

text \<open>The dictionary that \<^verbatim>\<open>StateMonitor.getCurrentData\<close> builds.\<close>

record snapshot =
  s_state :: "state_data option"
  s_job :: "job_data option"
  s_gcode :: "gcode_data option"
  s_sdUpload :: "upload_data option"
  s_currentZ :: "formatted option"
  s_progress :: "progress_data option"

subsection \<open>Observers\<close>

text \<open>
  A call \<^verbatim>\<open>callback.addTemperature(data)\<close>, \<^verbatim>\<open>callback.addLog(data)\<close>,
  \<^verbatim>\<open>callback.addMessage(data)\<close>, \<^verbatim>\<open>callback.sendCurrentData(data)\<close> or
  \<^verbatim>\<open>callback.sendUpdateTrigger(type)\<close> is an \<open>event\<close>. An observer is code outside
  this file, an object identified by \<open>o_id\<close>. Its handler maps the event and the
  observers' own state \<open>'s\<close> to the new state, to the observers that it unregistered
  from the Printer while it ran (the calls \<^verbatim>\<open>printer.unregisterCallback(o)\<close> it made,
  in call order, each \<open>o\<close> given by its \<open>o_id\<close>), and to the exception it raised, if
  any. \<^verbatim>\<open>registerCallback\<close> is not modelled: the list of the registered observers
  is part of the state that a statement starts from.
\<close>

datatype event =
    AddTemperature temperature_data
  | AddLog string
  | AddMessage string
  | SendCurrentData snapshot
  | SendUpdateTrigger string

record 's observer =
  o_id :: nat
  o_handler :: "event \<Rightarrow> 's \<Rightarrow> 's \<times> nat list \<times> exn option"

subsection \<open>The StateMonitor\<close>

text \<open>
  The attributes of \<^verbatim>\<open>StateMonitor\<close>; \<open>sm_changeEvent\<close> is the flag of the
  \<^verbatim>\<open>threading.Event\<close>. The attributes \<^verbatim>\<open>_ratelimit\<close> and \<^verbatim>\<open>_lastUpdate\<close>, which
  only the worker thread \<^verbatim>\<open>_work\<close> uses, are kept with the state of that thread, in
  \<open>work_state\<close> below.
\<close>

record state_monitor =
  sm_state :: "state_data option"
  sm_jobData :: "job_data option"
  sm_gcodeData :: "gcode_data option"
  sm_sdUploadData :: "upload_data option"
  sm_currentZ :: "formatted option"
  sm_progress :: "progress_data option"
  sm_changeEvent :: bool

subsection \<open>The workers and the Printer\<close>

text \<open>
  Both workers are only ever created by the Printer, with its own bound methods as
  callbacks: a \<^verbatim>\<open>GcodeLoader\<close> with \<^verbatim>\<open>_onGcodeLoadingProgress\<close> and one of the two
  loaded-callbacks, an \<^verbatim>\<open>SdFileStreamer\<close> with \<^verbatim>\<open>_onSdFileStreamProgress\<close> and
  \<^verbatim>\<open>_onSdFileStreamFinish\<close>. So a worker object records which loaded-callback it got,
  and the reference to the Communicator it was given.
\<close>

datatype loaded_callback = OnGcodeLoaded | OnGcodeLoadedToPrint

record gcode_loader =
  gl_filename :: string
  gl_loadedCallback :: loaded_callback

record sd_streamer =
  ss_comm :: nat
  ss_filename :: string
  ss_file :: string

text \<open>What \<^verbatim>\<open>gcodeManager.getFileData\<close> returns, as far as \<^verbatim>\<open>_setJobData\<close> reads it.\<close>

record gcode_analysis =
  ga_estimatedPrintTime :: "string option"
  ga_filament :: "string option"

record file_data =
  fd_gcodeAnalysis :: "gcode_analysis option"

text \<open>
  The callbacks that a worker invoked on the Printer are logged, in call order, in
  \<open>worker_calls\<close>.
\<close>

datatype worker_call =
    GcodeLoadingProgress string real string
  | GcodeLoaded string "gcode list"
  | SdFileStreamProgress string real
  | SdFileStreamFinish string

text \<open>
  The state: the attributes of the \<^verbatim>\<open>Printer\<close> object (\<open>p_\<close>), of which
  \<open>p_sdPrintAfterSelect\<close> does not exist (\<open>None\<close>) until \<^verbatim>\<open>selectSdFile\<close> sets it;
  the Communicator objects, addressed by reference (\<open>p_comm\<close> and \<open>ss_comm\<close> hold
  references); the setting \<^verbatim>\<open>feature.sdSupport\<close>; the job archive's
  \<^verbatim>\<open>getFileData\<close>; the observers' state; and the logs of the calls made to the
  observers and by the workers. The attributes that no method reads
  (\<^verbatim>\<open>_tempBacklog\<close>, \<^verbatim>\<open>_latestMessage\<close>, \<^verbatim>\<open>_messageBacklog\<close>, \<^verbatim>\<open>_latestLog\<close>,
  \<^verbatim>\<open>_logBacklog\<close>, \<^verbatim>\<open>_lastProgressReport\<close>) and the time-lapse are left out.
\<close>

record 's world =
  p_temp :: "real option"
  p_bedTemp :: "real option"
  p_targetTemp :: "real option"
  p_targetBedTemp :: "real option"
  p_temps_actual :: "(int \<times> real) list"
  p_temps_target :: "(int \<times> real) list"
  p_temps_actualBed :: "(int \<times> real) list"
  p_temps_targetBed :: "(int \<times> real) list"
  p_messages :: "string list"
  p_log :: "string list"
  p_state :: "int option"
  p_currentZ :: "real option"
  p_progress :: "real option"
  p_printTime :: "real option"
  p_printTimeLeft :: "real option"
  p_gcodeList :: "gcode list option"
  p_filename :: "string option"
  p_gcodeLoader :: "gcode_loader option"
  p_sdPrinting :: bool
  p_sdFile :: "string option"
  p_sdStreamer :: "sd_streamer option"
  p_sdPrintAfterSelect :: "bool option"
  p_comm :: "nat option"
  p_callbacks :: "'s observer list"
  p_stateMonitor :: state_monitor
  comms :: "nat \<Rightarrow> comm"
  next_comm :: nat
  sdSupport :: bool
  getFileData :: "string \<Rightarrow> file_data option"
  observers_state :: 's
  delivered :: "(nat \<times> event) list"
  worker_calls :: "worker_call list"

section \<open>The StateMonitor's methods\<close>

definition StateMonitor_init :: state_monitor where
  "StateMonitor_init =
     \<lparr>sm_state = None, sm_jobData = None, sm_gcodeData = None, sm_sdUploadData = None,
      sm_currentZ = None, sm_progress = None, sm_changeEvent = False\<rparr>"

definition StateMonitor_setCurrentZ :: "formatted option \<Rightarrow> state_monitor \<Rightarrow> state_monitor" where
  "StateMonitor_setCurrentZ currentZ m = m\<lparr>sm_currentZ := currentZ, sm_changeEvent := True\<rparr>"

definition StateMonitor_setState :: "state_data option \<Rightarrow> state_monitor \<Rightarrow> state_monitor" where
  "StateMonitor_setState state m = m\<lparr>sm_state := state, sm_changeEvent := True\<rparr>"

definition StateMonitor_setJobData :: "job_data option \<Rightarrow> state_monitor \<Rightarrow> state_monitor" where
  "StateMonitor_setJobData jobData m = m\<lparr>sm_jobData := jobData, sm_changeEvent := True\<rparr>"

definition StateMonitor_setGcodeData :: "gcode_data option \<Rightarrow> state_monitor \<Rightarrow> state_monitor" where
  "StateMonitor_setGcodeData gcodeData m = m\<lparr>sm_gcodeData := gcodeData, sm_changeEvent := True\<rparr>"

definition StateMonitor_setSdUploadData :: "upload_data option \<Rightarrow> state_monitor \<Rightarrow> state_monitor" where
  "StateMonitor_setSdUploadData uploadData m =
     m\<lparr>sm_sdUploadData := uploadData, sm_changeEvent := True\<rparr>"

definition StateMonitor_setProgress :: "progress_data option \<Rightarrow> state_monitor \<Rightarrow> state_monitor" where
  "StateMonitor_setProgress progress m = m\<lparr>sm_progress := progress, sm_changeEvent := True\<rparr>"

definition StateMonitor_reset ::
  "state_data option \<Rightarrow> job_data option \<Rightarrow> gcode_data option \<Rightarrow> upload_data option \<Rightarrow>
   progress_data option \<Rightarrow> formatted option \<Rightarrow> state_monitor \<Rightarrow> state_monitor" where
  "StateMonitor_reset state jobData gcodeData sdUploadData progress currentZ m =
     StateMonitor_setCurrentZ currentZ
       (StateMonitor_setProgress progress
         (StateMonitor_setSdUploadData sdUploadData
           (StateMonitor_setGcodeData gcodeData
             (StateMonitor_setJobData jobData
               (StateMonitor_setState state m)))))"

definition StateMonitor_getCurrentData :: "state_monitor \<Rightarrow> snapshot" where
  "StateMonitor_getCurrentData m =
     \<lparr>s_state = sm_state m, s_job = sm_jobData m, s_gcode = sm_gcodeData m,
      s_sdUpload = sm_sdUploadData m, s_currentZ = sm_currentZ m, s_progress = sm_progress m\<rparr>"

text \<open>A method of the Printer's StateMonitor, applied in the state.\<close>

definition stateMonitor :: "(state_monitor \<Rightarrow> state_monitor) \<Rightarrow> 's world \<Rightarrow> 's world" where
  "stateMonitor f w = w\<lparr>p_stateMonitor := f (p_stateMonitor w)\<rparr>"

section \<open>Dispatch to the observers\<close>

text \<open>
  Statements run in sequence until one raises: \<open>for_each body xs\<close> is the loop
  \<^verbatim>\<open>for x in xs: body(x)\<close>, which an exception of the body leaves, and
  \<open>try_except_pass body\<close> is \<^verbatim>\<open>try: body except: pass\<close>.
\<close>

fun for_each :: "('a \<Rightarrow> 'w \<Rightarrow> 'w \<times> exn option) \<Rightarrow> 'a list \<Rightarrow> 'w \<Rightarrow> 'w \<times> exn option" where
  "for_each body [] w = (w, None)"
| "for_each body (x # xs) w =
     (case body x w of
        (w', None) \<Rightarrow> for_each body xs w'
      | (w', Some e) \<Rightarrow> (w', Some e))"

definition try_except_pass :: "('w \<Rightarrow> 'w \<times> exn option) \<Rightarrow> 'w \<Rightarrow> 'w \<times> exn option" where
  "try_except_pass body w = (case body w of (w', _) \<Rightarrow> (w', None))"

text \<open>
  \<^verbatim>\<open>unregisterCallback\<close>:
  \<^verbatim>\<open>if callback in self._callbacks: self._callbacks.remove(callback)\<close>, which removes
  the first entry that is the given observer.
\<close>

fun remove_id :: "nat \<Rightarrow> 's observer list \<Rightarrow> 's observer list" where
  "remove_id k [] = []"
| "remove_id k (cb # cbs) = (if o_id cb = k then cbs else cb # remove_id k cbs)"

definition unregisterCallback :: "nat \<Rightarrow> 's world \<Rightarrow> 's world" where
  "unregisterCallback k w =
     (if k \<in> o_id ` set (p_callbacks w) then w\<lparr>p_callbacks := remove_id k (p_callbacks w)\<rparr>
      else w)"

text \<open>
  The call of an observer's method: the call is logged in \<open>delivered\<close>, the handler runs
  on the observers' state, the observers it unregisters leave \<^verbatim>\<open>self._callbacks\<close>, and
  what it raises is raised by the call.
\<close>

definition invoke :: "'s observer \<Rightarrow> event \<Rightarrow> 's world \<Rightarrow> 's world \<times> exn option" where
  "invoke callback ev w =
     (case o_handler callback ev (observers_state w) of
        (s', unregistered, exc) \<Rightarrow>
          (fold unregisterCallback unregistered
             (w\<lparr>observers_state := s', delivered := delivered w @ [(o_id callback, ev)]\<rparr>),
           exc))"

text \<open>
  The loop \<^verbatim>\<open>for callback in self._callbacks: try: callback.m(data) except: pass\<close>
  of the five dispatch methods, from the index \<open>i\<close> of the list iterator on. The
  iterator reads the list \<^verbatim>\<open>self._callbacks\<close> as it is when the next entry is
  fetched: after a handler has removed an entry at or before the index, the entry
  that moved into the place just served is passed over.
\<close>

function send_loop :: "event \<Rightarrow> nat \<Rightarrow> 's world \<Rightarrow> 's world \<times> exn option" where
  "send_loop ev i w =
     (if i < length (p_callbacks w) then
        (case try_except_pass (invoke (p_callbacks w ! i) ev) w of
           (w', None) \<Rightarrow> send_loop ev (Suc i) w'
         | (w', Some e) \<Rightarrow> (w', Some e))
      else (w, None))"
  by pat_completeness auto
termination
proof (relation "measure (\<lambda>(ev, i, w). length (p_callbacks w) - i)", goal_cases)
  case 1
  show ?case by simp
next
  case (2 ev i w w' exc)
  have shorter: "length (remove_id k cbs) \<le> length cbs" for k and cbs :: "'a observer list"
    by (induction cbs) simp_all
  have one: "length (p_callbacks (unregisterCallback k v)) \<le> length (p_callbacks v)"
    for k and v :: "'a world"
    by (simp add: unregisterCallback_def shorter)
  have many: "length (p_callbacks (fold unregisterCallback ks v)) \<le> length (p_callbacks v)"
    for ks and v :: "'a world"
  proof (induction ks arbitrary: v)
    case Nil
    show ?case by simp
  next
    case (Cons k ks)
    have "length (p_callbacks (fold unregisterCallback ks (unregisterCallback k v)))
        \<le> length (p_callbacks (unregisterCallback k v))"
      by (rule Cons.IH)
    also have "\<dots> \<le> length (p_callbacks v)"
      by (rule one)
    finally show ?case by simp
  qed
  obtain s' ks e where h: "o_handler (p_callbacks w ! i) ev (observers_state w) = (s', ks, e)"
    by (cases "o_handler (p_callbacks w ! i) ev (observers_state w)")
  have "w' = fold unregisterCallback ks
      (w\<lparr>observers_state := s', delivered := delivered w @ [(o_id (p_callbacks w ! i), ev)]\<rparr>)"
    using 2(2) [symmetric] by (simp add: try_except_pass_def invoke_def h)
  then have "length (p_callbacks w') \<le> length (p_callbacks w)"
    using many [of ks "w\<lparr>observers_state := s',
      delivered := delivered w @ [(o_id (p_callbacks w ! i), ev)]\<rparr>"]
    by simp
  then show ?case
    using 2(1) by simp
qed

text \<open>
  The five dispatch methods. \<^verbatim>\<open>copy.deepcopy(data)\<close> of a value is the value.
\<close>

definition sendAddTemperatureCallbacks :: "temperature_data \<Rightarrow> 's world \<Rightarrow> 's world \<times> exn option" where
  "sendAddTemperatureCallbacks data w = send_loop (AddTemperature data) 0 w"

definition sendAddLogCallbacks :: "string \<Rightarrow> 's world \<Rightarrow> 's world \<times> exn option" where
  "sendAddLogCallbacks data w = send_loop (AddLog data) 0 w"

definition sendAddMessageCallbacks :: "string \<Rightarrow> 's world \<Rightarrow> 's world \<times> exn option" where
  "sendAddMessageCallbacks data w = send_loop (AddMessage data) 0 w"

definition sendCurrentDataCallbacks :: "snapshot \<Rightarrow> 's world \<Rightarrow> 's world \<times> exn option" where
  "sendCurrentDataCallbacks data w = send_loop (SendCurrentData data) 0 w"

definition sendTriggerUpdateCallbacks :: "string \<Rightarrow> 's world \<Rightarrow> 's world \<times> exn option" where
  "sendTriggerUpdateCallbacks type w = send_loop (SendUpdateTrigger type) 0 w"

text \<open>The dispatch method that serves an event.\<close>

fun dispatch :: "event \<Rightarrow> 's world \<Rightarrow> 's world \<times> exn option" where
  "dispatch (AddTemperature data) w = sendAddTemperatureCallbacks data w"
| "dispatch (AddLog data) w = sendAddLogCallbacks data w"
| "dispatch (AddMessage data) w = sendAddMessageCallbacks data w"
| "dispatch (SendCurrentData data) w = sendCurrentDataCallbacks data w"
| "dispatch (SendUpdateTrigger type) w = sendTriggerUpdateCallbacks type w"

text \<open>
  \<^verbatim>\<open>StateMonitor.addTemperature\<close>, \<^verbatim>\<open>addLog\<close> and \<^verbatim>\<open>addMessage\<close> call the dispatch
  method they were constructed with and then set the change event. The dispatch
  methods raise nothing (lemma \<open>send_loop_frame\<close> below), so the result is the
  state alone.
\<close>

definition StateMonitor_addTemperature :: "temperature_data \<Rightarrow> 's world \<Rightarrow> 's world" where
  "StateMonitor_addTemperature temperature w =
     stateMonitor (\<lambda>m. m\<lparr>sm_changeEvent := True\<rparr>) (fst (sendAddTemperatureCallbacks temperature w))"

definition StateMonitor_addLog :: "string \<Rightarrow> 's world \<Rightarrow> 's world" where
  "StateMonitor_addLog line w =
     stateMonitor (\<lambda>m. m\<lparr>sm_changeEvent := True\<rparr>) (fst (sendAddLogCallbacks line w))"

definition StateMonitor_addMessage :: "string \<Rightarrow> 's world \<Rightarrow> 's world" where
  "StateMonitor_addMessage message w =
     stateMonitor (\<lambda>m. m\<lparr>sm_changeEvent := True\<rparr>) (fst (sendAddMessageCallbacks message w))"

section \<open>The Printer's methods\<close>

text \<open>An action method called on the Communicator object at reference \<open>r\<close>.\<close>

definition call_comm :: "nat \<Rightarrow> comm_call \<Rightarrow> 's world \<Rightarrow> 's world" where
  "call_comm r c w = w\<lparr>comms := (comms w)(r := (comms w r)\<lparr>c_calls := c_calls (comms w r) @ [c]\<rparr>)\<rparr>"

subsection \<open>State reports\<close>

definition getStateString :: "'s world \<Rightarrow> string" where
  "getStateString w =
     (case p_comm w of None \<Rightarrow> ''Offline'' | Some r \<Rightarrow> c_getStateString (comms w r))"

definition isClosedOrError :: "'s world \<Rightarrow> bool" where
  "isClosedOrError w = (case p_comm w of None \<Rightarrow> True | Some r \<Rightarrow> c_isClosedOrError (comms w r))"

definition isOperational :: "'s world \<Rightarrow> bool" where
  "isOperational w = (case p_comm w of None \<Rightarrow> False | Some r \<Rightarrow> c_isOperational (comms w r))"

definition isPrinting :: "'s world \<Rightarrow> bool" where
  "isPrinting w = (case p_comm w of None \<Rightarrow> False | Some r \<Rightarrow> c_isPrinting (comms w r))"

definition isPaused :: "'s world \<Rightarrow> bool" where
  "isPaused w = (case p_comm w of None \<Rightarrow> False | Some r \<Rightarrow> c_isPaused (comms w r))"

definition isError :: "'s world \<Rightarrow> bool" where
  "isError w = (case p_comm w of None \<Rightarrow> False | Some r \<Rightarrow> c_isError (comms w r))"

text \<open>
  \<^verbatim>\<open>A and B and ((L and len(L) > 0) or F)\<close>: \<^verbatim>\<open>False\<close> when a worker exists, else
  \<^verbatim>\<open>True\<close> when the command list is non-empty, else the value of \<^verbatim>\<open>_sdFile\<close>.
\<close>

definition isReady :: "'s world \<Rightarrow> ready_value" where
  "isReady w =
     (if p_gcodeLoader w \<noteq> None then RBool False
      else if p_sdStreamer w \<noteq> None then RBool False
      else if (case p_gcodeList w of None \<Rightarrow> False | Some l \<Rightarrow> l \<noteq> [] \<and> 0 < length l)
        then RBool True
      else (case p_sdFile w of None \<Rightarrow> RNone | Some f \<Rightarrow> RStr f))"

definition isLoading :: "'s world \<Rightarrow> bool" where
  "isLoading w = (p_gcodeLoader w \<noteq> None \<or> p_sdStreamer w \<noteq> None)"

definition getStateFlags :: "'s world \<Rightarrow> state_flags" where
  "getStateFlags w =
     (let sdReady =
        (if \<not> sdSupport w then False
         else case p_comm w of None \<Rightarrow> False | Some r \<Rightarrow> c_isSdReady (comms w r))
      in \<lparr>f_operational = isOperational w, f_printing = isPrinting w,
          f_closedOrError = isClosedOrError w, f_error = isError w, f_loading = isLoading w,
          f_paused = isPaused w, f_ready = isReady w, f_sdReady = sdReady\<rparr>)"

text \<open>
  The statement \<^verbatim>\<open>self._stateMonitor.setState({"state": self._state, "stateString":
  self.getStateString(), "flags": self._getStateFlags()})\<close>, which seven methods contain.
\<close>

definition sendState :: "'s world \<Rightarrow> 's world" where
  "sendState w =
     stateMonitor (StateMonitor_setState
       (Some \<lparr>st_state = p_state w, st_stateString = getStateString w,
              st_flags = getStateFlags w\<rparr>)) w"

subsection \<open>Construction\<close>

text \<open>A cell of the store that holds no Communicator yet.\<close>

definition no_comm :: comm where
  "no_comm =
     \<lparr>c_isOperational = False, c_isPrinting = False, c_isPaused = False, c_isError = False,
      c_isClosedOrError = True, c_isSdReady = False, c_isBusy = False,
      c_getStateString = [], c_getPrintTime = None, c_getPrintTimeRemainingEstimate = None,
      c_calls = []\<rparr>"

text \<open>
  \<^verbatim>\<open>Printer.__init__\<close>, in an environment given by the archive's \<^verbatim>\<open>getFileData\<close>,
  the setting and the observers' state.
\<close>

definition Printer_init :: "(string \<Rightarrow> file_data option) \<Rightarrow> bool \<Rightarrow> 's \<Rightarrow> 's world" where
  "Printer_init archive sd s0 =
     (let w =
        \<lparr>p_temp = None, p_bedTemp = None, p_targetTemp = None, p_targetBedTemp = None,
         p_temps_actual = [], p_temps_target = [], p_temps_actualBed = [],
         p_temps_targetBed = [], p_messages = [], p_log = [], p_state = None,
         p_currentZ = None, p_progress = None, p_printTime = None, p_printTimeLeft = None,
         p_gcodeList = None, p_filename = None, p_gcodeLoader = None, p_sdPrinting = False,
         p_sdFile = None, p_sdStreamer = None, p_sdPrintAfterSelect = None, p_comm = None,
         p_callbacks = [], p_stateMonitor = StateMonitor_init, comms = (\<lambda>r. no_comm),
         next_comm = 0, sdSupport = sd, getFileData = archive, observers_state = s0,
         delivered = [], worker_calls = []\<rparr>
      in stateMonitor (StateMonitor_reset
           (Some \<lparr>st_state = None, st_stateString = getStateString w,
                  st_flags = getStateFlags w\<rparr>)
           (Some \<lparr>jd_filename = None, jd_lines = None, jd_estimatedPrintTime = None,
                  jd_filament = None\<rparr>)
           (Some \<lparr>gd_filename = None, gd_progress = None, gd_mode = None\<rparr>)
           (Some \<lparr>ud_filename = None, ud_progress = None\<rparr>)
           (Some \<lparr>pd_progress = None, pd_currentLine = None, pd_printTime = None,
                  pd_printTimeLeft = None\<rparr>)
           None) w)"

subsection \<open>State monitoring\<close>

text \<open>\<^verbatim>\<open>if self._currentZ:\<close> is false for \<^verbatim>\<open>None\<close> and for zero.\<close>

definition setCurrentZ :: "real option \<Rightarrow> 's world \<Rightarrow> 's world" where
  "setCurrentZ currentZ w =
     (let w1 = w\<lparr>p_currentZ := currentZ\<rparr>;
          formattedCurrentZ =
            (case p_currentZ w1 of
               None \<Rightarrow> None
             | Some z \<Rightarrow> if z \<noteq> 0 then Some (Millimetres z) else None)
      in stateMonitor (StateMonitor_setCurrentZ formattedCurrentZ) w1)"

definition setState :: "int option \<Rightarrow> 's world \<Rightarrow> 's world" where
  "setState state w = sendState (w\<lparr>p_state := state\<rparr>)"

definition addLog :: "string \<Rightarrow> 's world \<Rightarrow> 's world" where
  "addLog line w =
     (let w1 = w\<lparr>p_log := p_log w @ [line]\<rparr>;
          w2 = w1\<lparr>p_log := slice_from (p_log w1) (- 300)\<rparr>
      in StateMonitor_addLog line w2)"

definition addMessage :: "string \<Rightarrow> 's world \<Rightarrow> 's world" where
  "addMessage message w =
     (let w1 = w\<lparr>p_messages := p_messages w @ [message]\<rparr>;
          w2 = w1\<lparr>p_messages := slice_from (p_messages w1) (- 300)\<rparr>
      in StateMonitor_addMessage message w2)"

definition setProgressData ::
  "real option \<Rightarrow> nat option \<Rightarrow> real option \<Rightarrow> real option \<Rightarrow> 's world \<Rightarrow> 's world" where
  "setProgressData progress currentLine printTime printTimeLeft w =
     (let w1 = w\<lparr>p_progress := progress, p_printTime := printTime,
                  p_printTimeLeft := printTimeLeft\<rparr>;
          formattedPrintTime =
            (case p_printTime w1 of
               None \<Rightarrow> None
             | Some t \<Rightarrow> if t \<noteq> 0 then Some (OfSeconds t) else None);
          formattedPrintTimeLeft =
            (case p_printTimeLeft w1 of
               None \<Rightarrow> None
             | Some t \<Rightarrow> if t \<noteq> 0 then Some (OfMinutes t) else None)
      in stateMonitor (StateMonitor_setProgress
           (Some \<lparr>pd_progress = p_progress w1, pd_currentLine = Some currentLine,
                  pd_printTime = formattedPrintTime,
                  pd_printTimeLeft = formattedPrintTimeLeft\<rparr>)) w1)"

text \<open>\<open>currentTimeUtc\<close> is the clock reading \<^verbatim>\<open>int(time.time() * 1000)\<close>.\<close>

definition addTemperatureData ::
  "int \<Rightarrow> real \<Rightarrow> real \<Rightarrow> real \<Rightarrow> real \<Rightarrow> 's world \<Rightarrow> 's world" where
  "addTemperatureData currentTimeUtc temp bedTemp targetTemp bedTargetTemp w =
     (let w1 = w\<lparr>p_temps_actual := p_temps_actual w @ [(currentTimeUtc, temp)]\<rparr>;
          w2 = w1\<lparr>p_temps_actual := slice_from (p_temps_actual w1) (- 300)\<rparr>;
          w3 = w2\<lparr>p_temps_target := p_temps_target w2 @ [(currentTimeUtc, targetTemp)]\<rparr>;
          w4 = w3\<lparr>p_temps_target := slice_from (p_temps_target w3) (- 300)\<rparr>;
          w5 = w4\<lparr>p_temps_actualBed := p_temps_actualBed w4 @ [(currentTimeUtc, bedTemp)]\<rparr>;
          w6 = w5\<lparr>p_temps_actualBed := slice_from (p_temps_actualBed w5) (- 300)\<rparr>;
          w7 = w6\<lparr>p_temps_targetBed := p_temps_targetBed w6 @ [(currentTimeUtc, bedTargetTemp)]\<rparr>;
          w8 = w7\<lparr>p_temps_targetBed := slice_from (p_temps_targetBed w7) (- 300)\<rparr>;
          w9 = w8\<lparr>p_temp := Some temp, p_bedTemp := Some bedTemp,
                   p_targetTemp := Some targetTemp, p_targetBedTemp := Some bedTargetTemp\<rparr>
      in StateMonitor_addTemperature
           \<lparr>td_currentTime = currentTimeUtc, td_temp = temp, td_bedTemp = bedTemp,
            td_targetTemp = targetTemp, td_targetBedTemp = bedTargetTemp\<rparr> w9)"

text \<open>
  \<^verbatim>\<open>if self._gcodeList:\<close> is false for \<^verbatim>\<open>None\<close> and for the empty list,
  \<^verbatim>\<open>if self._filename:\<close> for \<^verbatim>\<open>None\<close> and for the empty string.
\<close>

definition setJobData :: "string option \<Rightarrow> gcode list option \<Rightarrow> 's world \<Rightarrow> 's world" where
  "setJobData filename gcodeList w =
     (let w1 = w\<lparr>p_filename := filename, p_gcodeList := gcodeList\<rparr>;
          lines =
            (case p_gcodeList w1 of
               None \<Rightarrow> None
             | Some l \<Rightarrow> if l \<noteq> [] then Some (length l) else None);
          analysis =
            (case p_filename w1 of
               None \<Rightarrow> None
             | Some f \<Rightarrow>
                 if f \<noteq> [] then
                   (case getFileData w1 f of
                      None \<Rightarrow> None
                    | Some fileData \<Rightarrow> fd_gcodeAnalysis fileData)
                 else None);
          formattedFilename =
            (case p_filename w1 of
               None \<Rightarrow> None
             | Some f \<Rightarrow> if f \<noteq> [] then Some (basename f) else None);
          estimatedPrintTime =
            (case analysis of None \<Rightarrow> None | Some a \<Rightarrow> ga_estimatedPrintTime a);
          filament = (case analysis of None \<Rightarrow> None | Some a \<Rightarrow> ga_filament a)
      in stateMonitor (StateMonitor_setJobData
           (Some \<lparr>jd_filename = formattedFilename, jd_lines = lines,
                  jd_estimatedPrintTime = estimatedPrintTime, jd_filament = filament\<rparr>)) w1)"

subsection \<open>Printer commands\<close>

text \<open>
  \<^verbatim>\<open>connect\<close>: \<open>new\<close> is the Communicator object that the constructor
  \<^verbatim>\<open>comm.MachineCom(port, baudrate, callbackObject=self)\<close> returns; it is stored at a
  fresh reference.
\<close>

definition connect :: "comm \<Rightarrow> 's world \<Rightarrow> 's world" where
  "connect new w =
     (let w1 = (case p_comm w of None \<Rightarrow> w | Some r \<Rightarrow> call_comm r Close w);
          r' = next_comm w1
      in w1\<lparr>comms := (comms w1)(r' := new), next_comm := Suc r', p_comm := Some r'\<rparr>)"

definition disconnect :: "'s world \<Rightarrow> 's world" where
  "disconnect w =
     (let w1 = (case p_comm w of None \<Rightarrow> w | Some r \<Rightarrow> call_comm r Close w)
      in w1\<lparr>p_comm := None\<rparr>)"

text \<open>
  \<^verbatim>\<open>commands\<close>: \<^verbatim>\<open>self._comm.sendCommand(command)\<close> for each command. With
  \<^verbatim>\<open>self._comm\<close> being \<^verbatim>\<open>None\<close> the attribute lookup raises
  \<^verbatim>\<open>AttributeError\<close>.
\<close>

definition commands :: "string list \<Rightarrow> 's world \<Rightarrow> 's world \<times> exn option" where
  "commands cmds w =
     for_each
       (\<lambda>command w'.
          case p_comm w' of
            None \<Rightarrow> (w', Some AttributeError)
          | Some r \<Rightarrow> (call_comm r (SendCommand command) w', None))
       cmds w"

definition command :: "string \<Rightarrow> 's world \<Rightarrow> 's world \<times> exn option" where
  "command c w = commands [c] w"

text \<open>
  \<^verbatim>\<open>loadGcode\<close>. \<^verbatim>\<open>self._gcodeLoader.start()\<close> starts the thread; what the thread
  does is \<open>GcodeLoader_run\<close> below, a step of its own.
\<close>

definition loadGcode :: "string \<Rightarrow> bool \<Rightarrow> 's world \<Rightarrow> 's world" where
  "loadGcode file printAfterLoading w =
     (if (case p_comm w of None \<Rightarrow> False | Some r \<Rightarrow> c_isPrinting (comms w r))
         \<or> p_gcodeLoader w \<noteq> None
      then w
      else
        let w1 = w\<lparr>p_sdFile := None\<rparr>;
            w2 = setJobData None None w1;
            onGcodeLoadedCallback =
              (if printAfterLoading then OnGcodeLoadedToPrint else OnGcodeLoaded);
            w3 = w2\<lparr>p_gcodeLoader :=
                      Some \<lparr>gl_filename = file, gl_loadedCallback = onGcodeLoadedCallback\<rparr>\<rparr>
        in sendState w3)"

text \<open>\<^verbatim>\<open>startPrint\<close>. \<^verbatim>\<open>printGCode\<close> receives the attribute \<^verbatim>\<open>_gcodeList\<close> as it is.\<close>

definition startPrint :: "'s world \<Rightarrow> 's world" where
  "startPrint w =
     (case p_comm w of
        None \<Rightarrow> w
      | Some r \<Rightarrow>
          if \<not> c_isOperational (comms w r) then w
          else if p_gcodeList w = None \<and> p_sdFile w = None then w
          else if c_isPrinting (comms w r) then w
          else
            let w1 = setCurrentZ None w
            in if p_sdFile w1 \<noteq> None
               then call_comm r PrintSdFile (w1\<lparr>p_sdPrinting := True\<rparr>)
               else call_comm r (PrintGCode (p_gcodeList w1)) w1)"

subsection \<open>Callbacks triggered from the Communicator\<close>

definition mcLog :: "string \<Rightarrow> 's world \<Rightarrow> 's world" where
  "mcLog message w = addLog message w"

definition mcTempUpdate :: "int \<Rightarrow> real \<Rightarrow> real \<Rightarrow> real \<Rightarrow> real \<Rightarrow> 's world \<Rightarrow> 's world" where
  "mcTempUpdate currentTimeUtc temp bedTemp targetTemp bedTargetTemp w =
     addTemperatureData currentTimeUtc temp bedTemp targetTemp bedTargetTemp w"

definition mcMessage :: "string \<Rightarrow> 's world \<Rightarrow> 's world" where
  "mcMessage message w = addMessage message w"

text \<open>
  \<^verbatim>\<open>mcSdSelected\<close>: reading \<^verbatim>\<open>self._sdPrintAfterSelect\<close> raises
  \<^verbatim>\<open>AttributeError\<close> when \<^verbatim>\<open>selectSdFile\<close> has never set it.
\<close>

definition mcSdSelected :: "string \<Rightarrow> nat \<Rightarrow> 's world \<Rightarrow> 's world \<times> exn option" where
  "mcSdSelected filename filesize w =
     (let w1 = w\<lparr>p_sdFile := Some filename\<rparr>;
          w2 = setJobData (Some filename) None w1;
          w3 = sendState w2
      in case p_sdPrintAfterSelect w3 of
           None \<Rightarrow> (w3, Some AttributeError)
         | Some printAfterSelect \<Rightarrow> (if printAfterSelect then startPrint w3 else w3, None))"

text \<open>
  \<^verbatim>\<open>mcSdPrintingDone\<close>; the two calls on \<^verbatim>\<open>self._comm\<close> raise
  \<^verbatim>\<open>AttributeError\<close> when it is \<^verbatim>\<open>None\<close>.
\<close>

definition mcSdPrintingDone :: "'s world \<Rightarrow> 's world \<times> exn option" where
  "mcSdPrintingDone w =
     (let w1 = w\<lparr>p_sdPrinting := False\<rparr>
      in case p_comm w1 of
           None \<Rightarrow> (w1, Some AttributeError)
         | Some r \<Rightarrow>
             (sendState
                (setProgressData (Some 1) None (c_getPrintTime (comms w1 r))
                   (c_getPrintTimeRemainingEstimate (comms w1 r)) w1), None))"

subsection \<open>SD file handling\<close>

text \<open>\<^verbatim>\<open>if not self._comm: return\<close>: a Communicator object is true, \<^verbatim>\<open>None\<close> is not.\<close>

definition addSdFile :: "string \<Rightarrow> string \<Rightarrow> 's world \<Rightarrow> 's world" where
  "addSdFile filename file w =
     (case p_comm w of
        None \<Rightarrow> w
      | Some r \<Rightarrow>
          w\<lparr>p_sdStreamer := Some \<lparr>ss_comm = r, ss_filename = filename, ss_file = file\<rparr>\<rparr>)"

definition deleteSdFile :: "string \<Rightarrow> 's world \<Rightarrow> 's world" where
  "deleteSdFile filename w =
     (case p_comm w of
        None \<Rightarrow> w
      | Some r \<Rightarrow>
          let w1 = (if p_sdFile w = Some filename then w\<lparr>p_sdFile := None\<rparr> else w)
          in call_comm r (DeleteSdFile filename) w1)"

definition selectSdFile :: "string \<Rightarrow> bool \<Rightarrow> 's world \<Rightarrow> 's world" where
  "selectSdFile filename printAfterSelect w =
     (case p_comm w of
        None \<Rightarrow> w
      | Some r \<Rightarrow>
          call_comm r (SelectSdFile filename) (w\<lparr>p_sdPrintAfterSelect := Some printAfterSelect\<rparr>))"

subsection \<open>Callbacks triggered by the workers\<close>

definition onSdFileStreamProgress :: "string \<Rightarrow> real \<Rightarrow> 's world \<Rightarrow> 's world" where
  "onSdFileStreamProgress filename progress w =
     stateMonitor (StateMonitor_setSdUploadData
       (Some \<lparr>ud_filename = Some filename, ud_progress = Some progress\<rparr>)) w"

definition onSdFileStreamFinish :: "string \<Rightarrow> 's world \<Rightarrow> 's world" where
  "onSdFileStreamFinish filename w =
     (let w1 = setCurrentZ None w;
          w2 = setProgressData None None None None w1;
          w3 = w2\<lparr>p_sdStreamer := None\<rparr>;
          w4 = stateMonitor (StateMonitor_setSdUploadData
                 (Some \<lparr>ud_filename = None, ud_progress = None\<rparr>)) w3
      in sendState w4)"

definition onGcodeLoadingProgress :: "string \<Rightarrow> real \<Rightarrow> string \<Rightarrow> 's world \<Rightarrow> 's world" where
  "onGcodeLoadingProgress filename progress mode w =
     stateMonitor (StateMonitor_setGcodeData
       (Some \<lparr>gd_filename = Some (basename filename), gd_progress = Some progress,
              gd_mode = Some mode\<rparr>)) w"

definition onGcodeLoaded :: "string \<Rightarrow> gcode list \<Rightarrow> 's world \<Rightarrow> 's world" where
  "onGcodeLoaded filename gcodeList w =
     (let w1 = setJobData (Some filename) (Some gcodeList) w;
          w2 = setCurrentZ None w1;
          w3 = setProgressData None None None None w2;
          w4 = w3\<lparr>p_gcodeLoader := None\<rparr>;
          w5 = stateMonitor (StateMonitor_setGcodeData
                 (Some \<lparr>gd_filename = None, gd_progress = None, gd_mode = None\<rparr>)) w4
      in sendState w5)"

definition onGcodeLoadedToPrint :: "string \<Rightarrow> gcode list \<Rightarrow> 's world \<Rightarrow> 's world" where
  "onGcodeLoadedToPrint filename gcodeList w = startPrint (onGcodeLoaded filename gcodeList w)"

section \<open>The workers\<close>

text \<open>
  The file a worker reads, as the worker meets it: \<open>f_size\<close> is
  \<^verbatim>\<open>os.stat(path).st_size\<close> (\<open>None\<close>: the call raises \<^verbatim>\<open>OSError\<close>), \<open>f_open\<close>
  tells whether \<^verbatim>\<open>open(path, "r")\<close> succeeds (otherwise \<^verbatim>\<open>IOError\<close>), and
  \<open>f_reads\<close> lists what the iteration over the file yields until it ends:
  \<open>Line l pos\<close> is the line \<open>l\<close>, terminator included, with \<open>pos\<close> the value of
  \<^verbatim>\<open>tell()\<close> once the line has been read; \<open>ReadError\<close> is a read that raises
  \<^verbatim>\<open>IOError\<close>.
\<close>

datatype read_result = Line string nat | ReadError

record file_model =
  f_size :: "nat option"
  f_open :: bool
  f_reads :: "read_result list"

text \<open>
  The comment cut that both workers apply:
  \<^verbatim>\<open>if ";" in line: line = line[0:line.find(";")]\<close>.
\<close>

definition cut_comment :: "string \<Rightarrow> string" where
  "cut_comment line =
     (if CHR '';'' \<in> set line then slice_to line (find_char line CHR '';'') else line)"

subsection \<open>GcodeLoader\<close>

definition GcodeLoader_onLoadingProgress :: "string \<Rightarrow> real \<Rightarrow> 's world \<Rightarrow> 's world" where
  "GcodeLoader_onLoadingProgress filename progress w =
     onGcodeLoadingProgress filename progress ''loading''
       (w\<lparr>worker_calls := worker_calls w @ [GcodeLoadingProgress filename progress ''loading'']\<rparr>)"

text \<open>
  The loop \<^verbatim>\<open>for line in file\<close> of \<^verbatim>\<open>GcodeLoader.run\<close>, on the reads that remain,
  with the loop variables \<open>prevLineType\<close>, \<open>lineType\<close> and \<open>gcodeList\<close>.
\<close>

fun GcodeLoader_loop ::
  "string \<Rightarrow> nat \<Rightarrow> read_result list \<Rightarrow> string \<Rightarrow> string \<Rightarrow> gcode list \<Rightarrow> 's world \<Rightarrow>
   's world \<times> (exn + gcode list)" where
  "GcodeLoader_loop filename filesize [] prevLineType lineType gcodeList w = (w, Inr gcodeList)"
| "GcodeLoader_loop filename filesize (ReadError # rs) prevLineType lineType gcodeList w =
     (w, Inl IOError)"
| "GcodeLoader_loop filename filesize (Line line pos # rs) prevLineType lineType gcodeList w =
     (let lineType' =
            (if startswith line '';TYPE:'' then strip (slice_from line 6) else lineType);
          line' = strip (cut_comment line);
          gcodeList' =
            (if 0 < length line' then
               (if prevLineType \<noteq> lineType' then gcodeList @ [Typed line' lineType']
                else gcodeList @ [Bare line'])
             else gcodeList);
          prevLineType' = (if 0 < length line' then lineType' else prevLineType)
      in case float_div pos filesize of
           Inl e \<Rightarrow> (w, Inl e)
         | Inr progress \<Rightarrow>
             GcodeLoader_loop filename filesize rs prevLineType' lineType' gcodeList'
               (GcodeLoader_onLoadingProgress filename progress w))"

text \<open>The call \<^verbatim>\<open>self._loadedCallback(self._filename, self._gcodeList)\<close>.\<close>

definition GcodeLoader_loadedCallback ::
  "gcode_loader \<Rightarrow> string \<Rightarrow> gcode list \<Rightarrow> 's world \<Rightarrow> 's world" where
  "GcodeLoader_loadedCallback self filename gcodeList w =
     (let w1 = w\<lparr>worker_calls := worker_calls w @ [GcodeLoaded filename gcodeList]\<rparr>
      in case gl_loadedCallback self of
           OnGcodeLoaded \<Rightarrow> onGcodeLoaded filename gcodeList w1
         | OnGcodeLoadedToPrint \<Rightarrow> onGcodeLoadedToPrint filename gcodeList w1)"

text \<open>
  \<^verbatim>\<open>GcodeLoader.run\<close> on the file \<open>f\<close>. An exception ends the thread: the result
  carries it, and the loaded-callback is not called.
\<close>

definition GcodeLoader_run :: "gcode_loader \<Rightarrow> file_model \<Rightarrow> 's world \<Rightarrow> 's world \<times> exn option" where
  "GcodeLoader_run self f w =
     (case f_size f of
        None \<Rightarrow> (w, Some OSError)
      | Some filesize \<Rightarrow>
          if \<not> f_open f then (w, Some IOError)
          else
            case GcodeLoader_loop (gl_filename self) filesize (f_reads f)
                   ''CUSTOM'' ''CUSTOM'' [Bare ''M110 N0''] w of
              (w1, Inl e) \<Rightarrow> (w1, Some e)
            | (w1, Inr gcodeList) \<Rightarrow>
                (GcodeLoader_loadedCallback self (gl_filename self) gcodeList w1, None))"

subsection \<open>SdFileStreamer\<close>

definition SdFileStreamer_progressCallback :: "string \<Rightarrow> real \<Rightarrow> 's world \<Rightarrow> 's world" where
  "SdFileStreamer_progressCallback filename progress w =
     onSdFileStreamProgress filename progress
       (w\<lparr>worker_calls := worker_calls w @ [SdFileStreamProgress filename progress]\<rparr>)"

definition SdFileStreamer_finishCallback :: "string \<Rightarrow> 's world \<Rightarrow> 's world" where
  "SdFileStreamer_finishCallback filename w =
     onSdFileStreamFinish filename
       (w\<lparr>worker_calls := worker_calls w @ [SdFileStreamFinish filename]\<rparr>)"

text \<open>
  In a run of the uploader the action methods of the Communicator may raise. What
  they do is given by \<open>faults\<close>: for the calls the Communicator has received so far
  and the call at hand, the exception that the call raises, or \<open>None\<close> when it
  returns. The call is logged in both cases.
\<close>

type_synonym faults = "comm_call list \<Rightarrow> comm_call \<Rightarrow> exn option"

definition try_comm :: "faults \<Rightarrow> nat \<Rightarrow> comm_call \<Rightarrow> 's world \<Rightarrow> 's world \<times> exn option" where
  "try_comm faults r c w = (call_comm r c w, faults (c_calls (comms w r)) c)"

text \<open>
  The loop \<^verbatim>\<open>for line in f\<close> of \<^verbatim>\<open>SdFileStreamer.run\<close>. The pause
  \<^verbatim>\<open>time.sleep(0.001)\<close> changes no state.
\<close>

fun SdFileStreamer_loop ::
  "faults \<Rightarrow> nat \<Rightarrow> string \<Rightarrow> nat \<Rightarrow> read_result list \<Rightarrow> 's world \<Rightarrow> 's world \<times> exn option" where
  "SdFileStreamer_loop faults r name size0 [] w = (w, None)"
| "SdFileStreamer_loop faults r name size0 (ReadError # rs) w = (w, Some IOError)"
| "SdFileStreamer_loop faults r name size0 (Line line pos # rs) w =
     (let line' = strip (cut_comment line)
      in case (if 0 < length line' then try_comm faults r (SendCommand line') w else (w, None)) of
           (w1, Some e) \<Rightarrow> (w1, Some e)
         | (w1, None) \<Rightarrow>
             (case float_div pos size0 of
                Inl e \<Rightarrow> (w1, Some e)
              | Inr progress \<Rightarrow>
                  SdFileStreamer_loop faults r name size0 rs
                    (SdFileStreamer_progressCallback name progress w1)))"

text \<open>The \<^verbatim>\<open>try\<close> block of \<^verbatim>\<open>SdFileStreamer.run\<close>; \<open>size0\<close> is the variable \<^verbatim>\<open>size\<close>.\<close>

definition SdFileStreamer_try ::
  "faults \<Rightarrow> sd_streamer \<Rightarrow> string \<Rightarrow> file_model \<Rightarrow> 's world \<Rightarrow> 's world \<times> exn option" where
  "SdFileStreamer_try faults self name f w =
     (case f_size f of
        None \<Rightarrow> (w, Some OSError)
      | Some size0 \<Rightarrow>
          if \<not> f_open f then (w, Some IOError)
          else
            case try_comm faults (ss_comm self) (StartSdFileTransfer name) w of
              (w1, Some e) \<Rightarrow> (w1, Some e)
            | (w1, None) \<Rightarrow>
                SdFileStreamer_loop faults (ss_comm self) name size0 (f_reads f) w1)"

text \<open>
  \<^verbatim>\<open>SdFileStreamer.run\<close> on the file \<open>f\<close>: the busy check, the name, and the
  \<^verbatim>\<open>try\<close> block with its \<^verbatim>\<open>finally\<close> clause. The clause calls
  \<^verbatim>\<open>endSdFileTransfer\<close> and then the finish-callback; when \<^verbatim>\<open>endSdFileTransfer\<close>
  raises, the clause ends there with that exception, and otherwise the exception of
  the block, if any, is raised again after the clause.
\<close>

definition SdFileStreamer_run ::
  "sd_streamer \<Rightarrow> file_model \<Rightarrow> faults \<Rightarrow> 's world \<Rightarrow> 's world \<times> exn option" where
  "SdFileStreamer_run self f faults w =
     (if c_isBusy (comms w (ss_comm self)) then (w, None)
      else
        let name = sdFilename (ss_filename self)
        in case SdFileStreamer_try faults self name f w of
             (w1, exc) \<Rightarrow>
               (case try_comm faults (ss_comm self) (EndSdFileTransfer name) w1 of
                  (w2, Some e) \<Rightarrow> (w2, Some e)
                | (w2, None) \<Rightarrow> (SdFileStreamer_finishCallback name w2, exc)))"

section \<open>Runs of the system\<close>

text \<open>
  The calls that reach the Printer: the operations of its clients (\<open>Do\<close>), the
  callbacks of the Communicator (\<open>Mc\<close>), and the two worker threads running to their
  end on the file they find, the uploader with the faults of the Communicator it
  meets. \<open>step\<close> gives the state after a call, also when the call raised.
\<close>

datatype op =
    DoConnect comm
  | DoDisconnect
  | DoCommands "string list"
  | DoLoadGcode string bool
  | DoStartPrint
  | DoAddSdFile string string
  | DoDeleteSdFile string
  | DoSelectSdFile string bool
  | McLog string
  | McMessage string
  | McTempUpdate int real real real real
  | McSdSelected string nat
  | McSdPrintingDone
  | LoaderRuns file_model
  | StreamerRuns file_model faults

fun step :: "op \<Rightarrow> 's world \<Rightarrow> 's world" where
  "step (DoConnect new) w = connect new w"
| "step DoDisconnect w = disconnect w"
| "step (DoCommands cmds) w = fst (commands cmds w)"
| "step (DoLoadGcode file printAfterLoading) w = loadGcode file printAfterLoading w"
| "step DoStartPrint w = startPrint w"
| "step (DoAddSdFile filename file) w = addSdFile filename file w"
| "step (DoDeleteSdFile filename) w = deleteSdFile filename w"
| "step (DoSelectSdFile filename printAfterSelect) w = selectSdFile filename printAfterSelect w"
| "step (McLog message) w = mcLog message w"
| "step (McMessage message) w = mcMessage message w"
| "step (McTempUpdate now temp bedTemp targetTemp bedTargetTemp) w =
     mcTempUpdate now temp bedTemp targetTemp bedTargetTemp w"
| "step (McSdSelected filename filesize) w = fst (mcSdSelected filename filesize w)"
| "step McSdPrintingDone w = fst (mcSdPrintingDone w)"
| "step (LoaderRuns f) w =
     (case p_gcodeLoader w of None \<Rightarrow> w | Some loader \<Rightarrow> fst (GcodeLoader_run loader f w))"
| "step (StreamerRuns f faults) w =
     (case p_sdStreamer w of
        None \<Rightarrow> w
      | Some streamer \<Rightarrow> fst (SdFileStreamer_run streamer f faults w))"

text \<open>The state after a sequence of calls, the first call of the list first.\<close>

definition after :: "op list \<Rightarrow> 's world \<Rightarrow> 's world" where
  "after ops w = fold step ops w"

section \<open>The worker thread of the StateMonitor\<close>

text \<open>The nine methods of the StateMonitor that other threads call.\<close>

datatype mutator =
    SetCurrentZ "formatted option"
  | SetState "state_data option"
  | SetJobData "job_data option"
  | SetGcodeData "gcode_data option"
  | SetSdUploadData "upload_data option"
  | SetProgress "progress_data option"
  | AddTemperatureM temperature_data
  | AddLogM string
  | AddMessageM string

fun mutate :: "mutator \<Rightarrow> 's world \<Rightarrow> 's world" where
  "mutate (SetCurrentZ currentZ) w = stateMonitor (StateMonitor_setCurrentZ currentZ) w"
| "mutate (SetState state) w = stateMonitor (StateMonitor_setState state) w"
| "mutate (SetJobData jobData) w = stateMonitor (StateMonitor_setJobData jobData) w"
| "mutate (SetGcodeData gcodeData) w = stateMonitor (StateMonitor_setGcodeData gcodeData) w"
| "mutate (SetSdUploadData uploadData) w =
     stateMonitor (StateMonitor_setSdUploadData uploadData) w"
| "mutate (SetProgress progress) w = stateMonitor (StateMonitor_setProgress progress) w"
| "mutate (AddTemperatureM temperature) w = StateMonitor_addTemperature temperature w"
| "mutate (AddLogM line) w = StateMonitor_addLog line w"
| "mutate (AddMessageM message) w = StateMonitor_addMessage message w"

text \<open>
  The thread runs \<^verbatim>\<open>StateMonitor._work\<close>. Its place in the loop body is \<open>ws_pc\<close>:
  blocked in \<^verbatim>\<open>self._changeEvent.wait()\<close> (\<open>AtWait\<close>); past the computation of the
  waiting time and asleep until the given time, which is the time of the clock
  reading when there is nothing to wait for (\<open>AtSleep\<close>); past
  \<^verbatim>\<open>data = self.getCurrentData()\<close> with the captured \<open>data\<close> (\<open>AtCallback\<close>); and
  past the callback and the assignment to \<^verbatim>\<open>_lastUpdate\<close>, before
  \<^verbatim>\<open>self._changeEvent.clear()\<close> (\<open>AtClear\<close>). \<open>ws_sent\<close> logs the calls of the update
  callback with the clock reading that follows each.
\<close>

datatype work_pc = AtWait | AtSleep real | AtCallback snapshot | AtClear

record work_state =
  ws_ratelimit :: real
  ws_lastUpdate :: real
  ws_pc :: work_pc
  ws_sent :: "(real \<times> snapshot) list"

text \<open>
  \<^verbatim>\<open>StateMonitor.__init__\<close> as far as the worker is concerned, at the clock reading
  \<open>now\<close>; the Printer constructs its StateMonitor with \<^verbatim>\<open>ratelimit=0.5\<close>.
\<close>

definition work_init :: "real \<Rightarrow> work_state" where
  "work_init now = \<lparr>ws_ratelimit = 1 / 2, ws_lastUpdate = now, ws_pc = AtWait, ws_sent = []\<rparr>"

text \<open>
  What happens, in time order: a call of a mutator by another thread at a given time,
  and the statements of the worker with the clock readings they make. \<open>Wakes now\<close>
  is the return of \<^verbatim>\<open>wait()\<close>, possible when the event is set, with the reading
  \<^verbatim>\<open>now = time.time()\<close> and the computation of \<^verbatim>\<open>additionalWaitTime\<close>;
  \<open>Captures t\<close> is the end of the sleep, not before its time is over, and the
  capture of the data; \<open>Delivers t\<close> is the update callback followed by
  \<^verbatim>\<open>self._lastUpdate = time.time()\<close> with the reading \<open>t\<close>; \<open>Clears\<close> is
  \<^verbatim>\<open>self._changeEvent.clear()\<close>. A statement of the worker that is not the next one
  of the thread, or cannot run yet, leaves the state as it is.
\<close>

datatype tick =
    Call real mutator
  | Wakes real
  | Captures real
  | Delivers real
  | Clears

fun work_step :: "tick \<Rightarrow> work_state \<times> 's world \<Rightarrow> work_state \<times> 's world" where
  "work_step (Call t m) (ws, w) = (ws, mutate m w)"
| "work_step (Wakes now) (ws, w) =
     (if ws_pc ws = AtWait \<and> sm_changeEvent (p_stateMonitor w) then
        (let delta = now - ws_lastUpdate ws;
             additionalWaitTime = ws_ratelimit ws - delta
         in (ws\<lparr>ws_pc := AtSleep (if additionalWaitTime > 0 then now + additionalWaitTime
                                      else now)\<rparr>, w))
      else (ws, w))"
| "work_step (Captures t) (ws, w) =
     (case ws_pc ws of
        AtSleep until \<Rightarrow>
          if until \<le> t
          then (ws\<lparr>ws_pc := AtCallback (StateMonitor_getCurrentData (p_stateMonitor w))\<rparr>, w)
          else (ws, w)
      | _ \<Rightarrow> (ws, w))"
| "work_step (Delivers t) (ws, w) =
     (case ws_pc ws of
        AtCallback data \<Rightarrow>
          (ws\<lparr>ws_lastUpdate := t, ws_pc := AtClear, ws_sent := ws_sent ws @ [(t, data)]\<rparr>,
           fst (sendCurrentDataCallbacks data w))
      | _ \<Rightarrow> (ws, w))"
| "work_step Clears (ws, w) =
     (case ws_pc ws of
        AtClear \<Rightarrow> (ws\<lparr>ws_pc := AtWait\<rparr>, stateMonitor (\<lambda>m. m\<lparr>sm_changeEvent := False\<rparr>) w)
      | _ \<Rightarrow> (ws, w))"

definition work_run :: "tick list \<Rightarrow> work_state \<times> 's world \<Rightarrow> work_state \<times> 's world" where
  "work_run ticks s = fold work_step ticks s"

text \<open>The calls of a list of mutators, each at its time.\<close>

definition calls :: "(real \<times> mutator) list \<Rightarrow> tick list" where
  "calls ms = map (\<lambda>(t, m). Call t m) ms"

fun is_worker_tick :: "tick \<Rightarrow> bool" where
  "is_worker_tick (Call t m) = False"
| "is_worker_tick _ = True"

section \<open>Predicates of the properties\<close>

text \<open>The six bounded histories hold at most 300 entries each.\<close>

definition histories_bounded :: "'s world \<Rightarrow> bool" where
  "histories_bounded w =
     (length (p_log w) \<le> 300 \<and> length (p_messages w) \<le> 300 \<and>
      length (p_temps_actual w) \<le> 300 \<and> length (p_temps_target w) \<le> 300 \<and>
      length (p_temps_actualBed w) \<le> 300 \<and> length (p_temps_targetBed w) \<le> 300)"

text \<open>The calls that append to a history.\<close>

fun is_append :: "op \<Rightarrow> bool" where
  "is_append (McLog message) = True"
| "is_append (McMessage message) = True"
| "is_append (McTempUpdate now temp bedTemp targetTemp bedTargetTemp) = True"
| "is_append _ = False"

text \<open>
  A job source is printable when \<^verbatim>\<open>startPrint\<close> accepts it: the local command list
  when \<^verbatim>\<open>_gcodeList\<close> is set, the SD file when \<^verbatim>\<open>_sdFile\<close> is set.
\<close>

definition local_printable :: "'s world \<Rightarrow> bool" where
  "local_printable w = (p_gcodeList w \<noteq> None)"

definition sd_printable :: "'s world \<Rightarrow> bool" where
  "sd_printable w = (p_sdFile w \<noteq> None)"

definition at_most_one_printable :: "'s world \<Rightarrow> bool" where
  "at_most_one_printable w = (\<not> (local_printable w \<and> sd_printable w))"

fun is_EndSdFileTransfer :: "comm_call \<Rightarrow> bool" where
  "is_EndSdFileTransfer (EndSdFileTransfer name) = True"
| "is_EndSdFileTransfer _ = False"

fun is_SdFileStreamFinish :: "worker_call \<Rightarrow> bool" where
  "is_SdFileStreamFinish (SdFileStreamFinish name) = True"
| "is_SdFileStreamFinish _ = False"

fun is_LoaderRuns :: "op \<Rightarrow> bool" where
  "is_LoaderRuns (LoaderRuns f) = True"
| "is_LoaderRuns _ = False"

section \<open>Concrete states and inputs\<close>

text \<open>A fresh Printer whose archive knows no file, with SD support on and no observer.\<close>

definition fresh :: "unit world" where
  "fresh = Printer_init (\<lambda>f. None) True ()"

text \<open>A Communicator that is connected and idle, and one that is printing.\<close>

definition operational_comm :: comm where
  "operational_comm =
     no_comm\<lparr>c_isOperational := True, c_isClosedOrError := False,
       c_getStateString := ''Operational''\<rparr>"

definition busy_comm :: comm where
  "busy_comm =
     operational_comm\<lparr>c_isPrinting := True, c_isBusy := True, c_getStateString := ''Printing''\<rparr>"

text \<open>
  The Printer after an SD print: connected, the file \<^verbatim>\<open>A.GCO\<close> selected and printed,
  the Communicator idle again.
\<close>

definition w_sd_printed :: "unit world" where
  "w_sd_printed =
     after [DoConnect operational_comm, DoSelectSdFile ''A.GCO'' False,
            McSdSelected ''A.GCO'' 100, DoStartPrint, McSdPrintingDone] fresh"

text \<open>The Printer while a GcodeLoader for \<^verbatim>\<open>a.gcode\<close> is in flight.\<close>

definition w_loading :: "unit world" where
  "w_loading = after [DoConnect operational_comm, DoLoadGcode ''a.gcode'' False] fresh"

text \<open>A Printer all of whose histories hold 300 entries.\<close>

definition w_full :: "unit world" where
  "w_full =
     fresh\<lparr>p_temps_actual := (0, 20) # replicate 299 (1, 21),
           p_temps_target := (0, 200) # replicate 299 (1, 210),
           p_temps_actualBed := (0, 30) # replicate 299 (1, 31),
           p_temps_targetBed := (0, 60) # replicate 299 (1, 61),
           p_messages := ''oldest'' # replicate 299 ''ok'',
           p_log := ''oldest'' # replicate 299 ''ok''\<rparr>"

text \<open>
  Two observers on the state of a counter: the handler of the first always raises, the
  handler of the second counts the events it receives.
\<close>

definition two_observers :: "nat observer list" where
  "two_observers =
     [\<lparr>o_id = 0, o_handler = (\<lambda>ev s. (s, [], Some (Raised ''broken'')))\<rparr>,
      \<lparr>o_id = 1, o_handler = (\<lambda>ev s. (Suc s, [], None))\<rparr>]"

definition w_observed :: "nat world" where
  "w_observed = (Printer_init (\<lambda>f. None) True 0)\<lparr>p_callbacks := two_observers\<rparr>"

text \<open>
  The same two observers, except that the first, whose connection is gone, also
  unregisters itself before it raises.
\<close>

definition leaving_observers :: "nat observer list" where
  "leaving_observers =
     [\<lparr>o_id = 0, o_handler = (\<lambda>ev s. (s, [0], Some (Raised ''broken'')))\<rparr>,
      \<lparr>o_id = 1, o_handler = (\<lambda>ev s. (Suc s, [], None))\<rparr>]"

definition w_leaving :: "nat world" where
  "w_leaving = (Printer_init (\<lambda>f. None) True 0)\<lparr>p_callbacks := leaving_observers\<rparr>"

text \<open>
  The file of 48 bytes with the lines \<^verbatim>\<open>G1 X1\<close>, \<^verbatim>\<open>;TYPE:WALL-OUTER\<close>,
  \<^verbatim>\<open>G1 X2 ; comment\<close>, three spaces, and \<^verbatim>\<open>G1 X3\<close> without a final line end. The
  positions \<open>t1\<close> to \<open>t4\<close> that \<^verbatim>\<open>tell()\<close> reports after the first four lines depend
  on the buffering of the file object; after the last line the position is the size.
\<close>

definition example_file :: "nat \<Rightarrow> nat \<Rightarrow> nat \<Rightarrow> nat \<Rightarrow> file_model" where
  "example_file t1 t2 t3 t4 =
     \<lparr>f_size = Some 48, f_open = True,
      f_reads = [Line ''G1 X1\<newline>'' t1, Line '';TYPE:WALL-OUTER\<newline>'' t2,
                 Line ''G1 X2 ; comment\<newline>'' t3, Line ''   \<newline>'' t4,
                 Line ''G1 X3'' 48]\<rparr>"

definition example_gcodeList :: "gcode list" where
  "example_gcodeList =
     [Bare ''M110 N0'', Bare ''G1 X1'', Typed ''G1 X2'' ''WALL-OUTER'', Bare ''G1 X3'']"

text \<open>
  An upload of \<^verbatim>\<open>my_long_model.gcode\<close>, requested from an idle and from a printing
  Communicator.
\<close>

definition example_streamer :: sd_streamer where
  "example_streamer =
     \<lparr>ss_comm = 0, ss_filename = ''my_long_model.gcode'',
      ss_file = ''uploads/my_long_model.gcode''\<rparr>"

definition w_upload :: "unit world" where
  "w_upload =
     after [DoConnect operational_comm,
            DoAddSdFile ''my_long_model.gcode'' ''uploads/my_long_model.gcode''] fresh"

text \<open>
  A Communicator whose calls all return, one that fails to send \<^verbatim>\<open>G1 X1\<close>, and one
  that fails to end a transfer.
\<close>

definition no_faults :: faults where
  "no_faults = (\<lambda>log c. None)"

definition send_fault :: faults where
  "send_fault = (\<lambda>log c. if c = SendCommand ''G1 X1'' then Some (Raised ''serial'') else None)"

definition end_fault :: faults where
  "end_fault = (\<lambda>log c. if is_EndSdFileTransfer c then Some (Raised ''serial'') else None)"

definition w_busy_upload :: "unit world" where
  "w_busy_upload =
     after [DoConnect busy_comm,
            DoAddSdFile ''my_long_model.gcode'' ''uploads/my_long_model.gcode''] fresh"

text \<open>
  A load of \<^verbatim>\<open>a.gcode\<close> is started, the SD file \<^verbatim>\<open>B.GCO\<close> is selected while the
  loader is in flight, and then the loader finishes.
\<close>

definition select_while_loading :: "op list" where
  "select_while_loading =
     [DoConnect operational_comm, DoLoadGcode ''a.gcode'' False,
      DoSelectSdFile ''B.GCO'' False, McSdSelected ''B.GCO'' 100,
      LoaderRuns (example_file 6 23 39 43)]"

text \<open>
  The worker of a Printer constructed at time 0 delivers the first snapshot at 0.5.
  After an idle time the current Z is set at 10.0 and at 10.1; the worker wakes at
  once each time, and sleeps the second time until 10.5.
\<close>

definition burst_after_idle :: "tick list" where
  "burst_after_idle =
     [Wakes 0, Captures (1 / 2), Delivers (1 / 2), Clears,
      Call 10 (SetCurrentZ (Some (Millimetres 1))),
      Wakes 10, Captures 10, Delivers 10, Clears,
      Call (101 / 10) (SetCurrentZ (Some (Millimetres 2))),
      Wakes (101 / 10), Captures (21 / 2), Delivers (21 / 2), Clears]"

text \<open>The times of a list of ticks; \<open>Clears\<close> reads no clock.\<close>

fun tick_times :: "tick list \<Rightarrow> real list" where
  "tick_times [] = []"
| "tick_times (Call t m # ts) = t # tick_times ts"
| "tick_times (Wakes t # ts) = t # tick_times ts"
| "tick_times (Captures t # ts) = t # tick_times ts"
| "tick_times (Delivers t # ts) = t # tick_times ts"
| "tick_times (Clears # ts) = tick_times ts"

text \<open>
  The state to which the worker has delivered the first snapshot, and two mutators
  called while it sleeps out the rest of the interval.
\<close>

definition after_first_delivery :: "work_state \<times> unit world" where
  "after_first_delivery =
     work_run [Wakes 0, Captures (1 / 2), Delivers (1 / 2), Clears] (work_init 0, fresh)"

section \<open>Shared lemmas\<close>

subsection \<open>Slices and names\<close>

lemma slice_last_length: "length (slice_from (xs @ [x]) (- 300)) \<le> 300"
  by (simp add: slice_from_def)

lemma slice_last_full: "length xs = 300 \<Longrightarrow> slice_from (xs @ [x]) (- 300) = tl xs @ [x]"
  by (cases xs) (simp_all add: slice_from_def)

lemma rfind_char_last:
  "c \<notin> set ext \<Longrightarrow> rfind_char (stem @ c # ext) c = int (length stem)"
proof -
  assume "c \<notin> set ext"
  then have tw: "takeWhile (\<lambda>x. x \<noteq> c) (rev ext) = rev ext"
    by (induction ext) auto
  show ?thesis
    by (simp add: rfind_char_def takeWhile_tail tw)
qed

lemma strip_example:
  "strip ''G1 X1\<newline>'' = ''G1 X1''" "strip ''WALL-OUTER\<newline>'' = ''WALL-OUTER''"
  "strip ''G1 X2 '' = ''G1 X2''" "strip ''   \<newline>'' = []" "strip ''G1 X3'' = ''G1 X3''"
  "strip [] = []"
  by (simp_all add: strip_def is_space_def)

subsection \<open>The dispatch loop\<close>

text \<open>
  A dispatch raises nothing, and changes nothing but the observers' state, the log
  of the calls to them and the list of the registered observers.
\<close>

lemma fold_unregister_frame: "\<exists>cbs. fold unregisterCallback ks v = v\<lparr>p_callbacks := cbs\<rparr>"
proof (induction ks arbitrary: v)
  case Nil
  have "fold unregisterCallback [] v = v\<lparr>p_callbacks := p_callbacks v\<rparr>" by simp
  then show ?case by (rule exI)
next
  case (Cons k ks)
  have "\<exists>cbs1. unregisterCallback k v = v\<lparr>p_callbacks := cbs1\<rparr>"
  proof (cases "k \<in> o_id ` set (p_callbacks v)")
    case True
    then have "unregisterCallback k v = v\<lparr>p_callbacks := remove_id k (p_callbacks v)\<rparr>"
      by (simp add: unregisterCallback_def)
    then show ?thesis by (rule exI)
  next
    case False
    then have "unregisterCallback k v = v\<lparr>p_callbacks := p_callbacks v\<rparr>"
      by (simp add: unregisterCallback_def)
    then show ?thesis by (rule exI)
  qed
  then obtain cbs1 where one: "unregisterCallback k v = v\<lparr>p_callbacks := cbs1\<rparr>" ..
  from Cons.IH [of "v\<lparr>p_callbacks := cbs1\<rparr>"]
  obtain cbs2 where "fold unregisterCallback ks (v\<lparr>p_callbacks := cbs1\<rparr>) =
      v\<lparr>p_callbacks := cbs1\<rparr>\<lparr>p_callbacks := cbs2\<rparr>" ..
  then have "fold unregisterCallback (k # ks) v = v\<lparr>p_callbacks := cbs2\<rparr>"
    by (simp add: one)
  then show ?case by (rule exI)
qed

lemma try_invoke_frame:
  "\<exists>s d cbs. try_except_pass (invoke cb ev) w =
     (w\<lparr>observers_state := s, delivered := d, p_callbacks := cbs\<rparr>, None)"
proof -
  obtain s' ks e where h: "o_handler cb ev (observers_state w) = (s', ks, e)"
    by (cases "o_handler cb ev (observers_state w)")
  from fold_unregister_frame
    [of ks "w\<lparr>observers_state := s', delivered := delivered w @ [(o_id cb, ev)]\<rparr>"]
  obtain cbs where "fold unregisterCallback ks
      (w\<lparr>observers_state := s', delivered := delivered w @ [(o_id cb, ev)]\<rparr>) =
      w\<lparr>observers_state := s', delivered := delivered w @ [(o_id cb, ev)]\<rparr>\<lparr>p_callbacks := cbs\<rparr>" ..
  then have "try_except_pass (invoke cb ev) w =
      (w\<lparr>observers_state := s', delivered := delivered w @ [(o_id cb, ev)],
         p_callbacks := cbs\<rparr>, None)"
    by (simp add: try_except_pass_def invoke_def h)
  then show ?thesis by (intro exI)
qed

lemma send_loop_frame:
  "\<exists>s d cbs. send_loop ev i w =
     (w\<lparr>observers_state := s, delivered := d, p_callbacks := cbs\<rparr>, None)"
proof (induction ev i w rule: send_loop.induct)
  case (1 ev i w)
  show ?case
  proof (cases "i < length (p_callbacks w)")
    case False
    then have "send_loop ev i w =
        (w\<lparr>observers_state := observers_state w, delivered := delivered w,
           p_callbacks := p_callbacks w\<rparr>, None)"
      by (subst send_loop.simps) simp
    then show ?thesis by (intro exI)
  next
    case True
    from try_invoke_frame [of "p_callbacks w ! i" ev w]
    obtain s1 d1 cbs1 where one: "try_except_pass (invoke (p_callbacks w ! i) ev) w =
        (w\<lparr>observers_state := s1, delivered := d1, p_callbacks := cbs1\<rparr>, None)"
      by (elim exE)
    from "1.IH" [OF True one [symmetric] refl]
    obtain s2 d2 cbs2 where
      "send_loop ev (Suc i) (w\<lparr>observers_state := s1, delivered := d1, p_callbacks := cbs1\<rparr>) =
         (w\<lparr>observers_state := s1, delivered := d1, p_callbacks := cbs1\<rparr>
            \<lparr>observers_state := s2, delivered := d2, p_callbacks := cbs2\<rparr>, None)"
      by (elim exE)
    then have "send_loop ev i w =
        (w\<lparr>observers_state := s2, delivered := d2, p_callbacks := cbs2\<rparr>, None)"
      using True one by (subst send_loop.simps) simp
    then show ?thesis by (intro exI)
  qed
qed

lemmas dispatch_defs =
  sendAddTemperatureCallbacks_def sendAddLogCallbacks_def sendAddMessageCallbacks_def
  sendCurrentDataCallbacks_def sendTriggerUpdateCallbacks_def

lemma StateMonitor_addLog_frame:
  "\<exists>s d cbs. StateMonitor_addLog l w =
     w\<lparr>p_stateMonitor := (p_stateMonitor w)\<lparr>sm_changeEvent := True\<rparr>,
       observers_state := s, delivered := d, p_callbacks := cbs\<rparr>"
proof -
  from send_loop_frame [of "AddLog l" 0 w]
  obtain s d cbs where "send_loop (AddLog l) 0 w =
      (w\<lparr>observers_state := s, delivered := d, p_callbacks := cbs\<rparr>, None)"
    by (elim exE)
  then have "StateMonitor_addLog l w =
     w\<lparr>p_stateMonitor := (p_stateMonitor w)\<lparr>sm_changeEvent := True\<rparr>,
       observers_state := s, delivered := d, p_callbacks := cbs\<rparr>"
    by (simp add: StateMonitor_addLog_def sendAddLogCallbacks_def stateMonitor_def)
  then show ?thesis by (intro exI)
qed

lemma StateMonitor_addMessage_frame:
  "\<exists>s d cbs. StateMonitor_addMessage l w =
     w\<lparr>p_stateMonitor := (p_stateMonitor w)\<lparr>sm_changeEvent := True\<rparr>,
       observers_state := s, delivered := d, p_callbacks := cbs\<rparr>"
proof -
  from send_loop_frame [of "AddMessage l" 0 w]
  obtain s d cbs where "send_loop (AddMessage l) 0 w =
      (w\<lparr>observers_state := s, delivered := d, p_callbacks := cbs\<rparr>, None)"
    by (elim exE)
  then have "StateMonitor_addMessage l w =
     w\<lparr>p_stateMonitor := (p_stateMonitor w)\<lparr>sm_changeEvent := True\<rparr>,
       observers_state := s, delivered := d, p_callbacks := cbs\<rparr>"
    by (simp add: StateMonitor_addMessage_def sendAddMessageCallbacks_def stateMonitor_def)
  then show ?thesis by (intro exI)
qed

lemma StateMonitor_addTemperature_frame:
  "\<exists>s d cbs. StateMonitor_addTemperature td w =
     w\<lparr>p_stateMonitor := (p_stateMonitor w)\<lparr>sm_changeEvent := True\<rparr>,
       observers_state := s, delivered := d, p_callbacks := cbs\<rparr>"
proof -
  from send_loop_frame [of "AddTemperature td" 0 w]
  obtain s d cbs where "send_loop (AddTemperature td) 0 w =
      (w\<lparr>observers_state := s, delivered := d, p_callbacks := cbs\<rparr>, None)"
    by (elim exE)
  then have "StateMonitor_addTemperature td w =
     w\<lparr>p_stateMonitor := (p_stateMonitor w)\<lparr>sm_changeEvent := True\<rparr>,
       observers_state := s, delivered := d, p_callbacks := cbs\<rparr>"
    by (simp add: StateMonitor_addTemperature_def sendAddTemperatureCallbacks_def stateMonitor_def)
  then show ?thesis by (intro exI)
qed

subsection \<open>What the building blocks change\<close>

lemma setCurrentZ_None:
  "setCurrentZ None w =
     w\<lparr>p_currentZ := None,
       p_stateMonitor := (p_stateMonitor w)\<lparr>sm_currentZ := None, sm_changeEvent := True\<rparr>\<rparr>"
  by (simp add: setCurrentZ_def stateMonitor_def StateMonitor_setCurrentZ_def)

lemma addLog_fields:
  "p_log (addLog l w) = slice_from (p_log w @ [l]) (- 300)"
  "p_messages (addLog l w) = p_messages w"
  "p_temps_actual (addLog l w) = p_temps_actual w"
  "p_temps_target (addLog l w) = p_temps_target w"
  "p_temps_actualBed (addLog l w) = p_temps_actualBed w"
  "p_temps_targetBed (addLog l w) = p_temps_targetBed w"
  "p_gcodeList (addLog l w) = p_gcodeList w"
  "p_sdFile (addLog l w) = p_sdFile w"
proof -
  define w2 where "w2 = w\<lparr>p_log := slice_from (p_log w @ [l]) (- 300)\<rparr>"
  have unfold: "addLog l w = StateMonitor_addLog l w2"
    by (simp add: addLog_def Let_def w2_def)
  from StateMonitor_addLog_frame [of l w2]
  obtain s d cbs where eq: "StateMonitor_addLog l w2 =
     w2\<lparr>p_stateMonitor := (p_stateMonitor w2)\<lparr>sm_changeEvent := True\<rparr>,
       observers_state := s, delivered := d, p_callbacks := cbs\<rparr>"
    by (elim exE)
  show "p_log (addLog l w) = slice_from (p_log w @ [l]) (- 300)"
    "p_messages (addLog l w) = p_messages w"
    "p_temps_actual (addLog l w) = p_temps_actual w"
    "p_temps_target (addLog l w) = p_temps_target w"
    "p_temps_actualBed (addLog l w) = p_temps_actualBed w"
    "p_temps_targetBed (addLog l w) = p_temps_targetBed w"
    "p_gcodeList (addLog l w) = p_gcodeList w"
    "p_sdFile (addLog l w) = p_sdFile w"
    unfolding unfold eq by (simp_all add: w2_def)
qed

lemma addMessage_fields:
  "p_messages (addMessage l w) = slice_from (p_messages w @ [l]) (- 300)"
  "p_log (addMessage l w) = p_log w"
  "p_temps_actual (addMessage l w) = p_temps_actual w"
  "p_temps_target (addMessage l w) = p_temps_target w"
  "p_temps_actualBed (addMessage l w) = p_temps_actualBed w"
  "p_temps_targetBed (addMessage l w) = p_temps_targetBed w"
  "p_gcodeList (addMessage l w) = p_gcodeList w"
  "p_sdFile (addMessage l w) = p_sdFile w"
proof -
  define w2 where "w2 = w\<lparr>p_messages := slice_from (p_messages w @ [l]) (- 300)\<rparr>"
  have unfold: "addMessage l w = StateMonitor_addMessage l w2"
    by (simp add: addMessage_def Let_def w2_def)
  from StateMonitor_addMessage_frame [of l w2]
  obtain s d cbs where eq: "StateMonitor_addMessage l w2 =
     w2\<lparr>p_stateMonitor := (p_stateMonitor w2)\<lparr>sm_changeEvent := True\<rparr>,
       observers_state := s, delivered := d, p_callbacks := cbs\<rparr>"
    by (elim exE)
  show "p_messages (addMessage l w) = slice_from (p_messages w @ [l]) (- 300)"
    "p_log (addMessage l w) = p_log w"
    "p_temps_actual (addMessage l w) = p_temps_actual w"
    "p_temps_target (addMessage l w) = p_temps_target w"
    "p_temps_actualBed (addMessage l w) = p_temps_actualBed w"
    "p_temps_targetBed (addMessage l w) = p_temps_targetBed w"
    "p_gcodeList (addMessage l w) = p_gcodeList w"
    "p_sdFile (addMessage l w) = p_sdFile w"
    unfolding unfold eq by (simp_all add: w2_def)
qed

lemma addTemperatureData_fields:
  "p_temps_actual (addTemperatureData t a b c d w) =
     slice_from (p_temps_actual w @ [(t, a)]) (- 300)"
  "p_temps_target (addTemperatureData t a b c d w) =
     slice_from (p_temps_target w @ [(t, c)]) (- 300)"
  "p_temps_actualBed (addTemperatureData t a b c d w) =
     slice_from (p_temps_actualBed w @ [(t, b)]) (- 300)"
  "p_temps_targetBed (addTemperatureData t a b c d w) =
     slice_from (p_temps_targetBed w @ [(t, d)]) (- 300)"
  "p_log (addTemperatureData t a b c d w) = p_log w"
  "p_messages (addTemperatureData t a b c d w) = p_messages w"
  "p_gcodeList (addTemperatureData t a b c d w) = p_gcodeList w"
  "p_sdFile (addTemperatureData t a b c d w) = p_sdFile w"
proof -
  define td where "td = \<lparr>td_currentTime = t, td_temp = a, td_bedTemp = b,
    td_targetTemp = c, td_targetBedTemp = d\<rparr>"
  define w9 where "w9 =
    w\<lparr>p_temps_actual := slice_from (p_temps_actual w @ [(t, a)]) (- 300),
      p_temps_target := slice_from (p_temps_target w @ [(t, c)]) (- 300),
      p_temps_actualBed := slice_from (p_temps_actualBed w @ [(t, b)]) (- 300),
      p_temps_targetBed := slice_from (p_temps_targetBed w @ [(t, d)]) (- 300),
      p_temp := Some a, p_bedTemp := Some b, p_targetTemp := Some c,
      p_targetBedTemp := Some d\<rparr>"
  have unfold: "addTemperatureData t a b c d w = StateMonitor_addTemperature td w9"
    by (simp add: addTemperatureData_def Let_def td_def w9_def)
  from StateMonitor_addTemperature_frame [of td w9]
  obtain s dl cbs where eq: "StateMonitor_addTemperature td w9 =
     w9\<lparr>p_stateMonitor := (p_stateMonitor w9)\<lparr>sm_changeEvent := True\<rparr>,
       observers_state := s, delivered := dl, p_callbacks := cbs\<rparr>"
    by (elim exE)
  show "p_temps_actual (addTemperatureData t a b c d w) =
     slice_from (p_temps_actual w @ [(t, a)]) (- 300)"
    "p_temps_target (addTemperatureData t a b c d w) =
     slice_from (p_temps_target w @ [(t, c)]) (- 300)"
    "p_temps_actualBed (addTemperatureData t a b c d w) =
     slice_from (p_temps_actualBed w @ [(t, b)]) (- 300)"
    "p_temps_targetBed (addTemperatureData t a b c d w) =
     slice_from (p_temps_targetBed w @ [(t, d)]) (- 300)"
    "p_log (addTemperatureData t a b c d w) = p_log w"
    "p_messages (addTemperatureData t a b c d w) = p_messages w"
    "p_gcodeList (addTemperatureData t a b c d w) = p_gcodeList w"
    "p_sdFile (addTemperatureData t a b c d w) = p_sdFile w"
    unfolding unfold eq by (simp_all add: w9_def)
qed

lemma stateMonitor_fields [simp]:
  "p_gcodeList (stateMonitor f w) = p_gcodeList w"
  "p_sdFile (stateMonitor f w) = p_sdFile w"
  "worker_calls (stateMonitor f w) = worker_calls w"
  by (simp_all add: stateMonitor_def)

lemma call_comm_fields [simp]:
  "p_gcodeList (call_comm r c w) = p_gcodeList w"
  "p_sdFile (call_comm r c w) = p_sdFile w"
  "p_comm (call_comm r c w) = p_comm w"
  "worker_calls (call_comm r c w) = worker_calls w"
  by (simp_all add: call_comm_def)

lemma sendState_fields [simp]:
  "p_gcodeList (sendState w) = p_gcodeList w"
  "p_sdFile (sendState w) = p_sdFile w"
  "worker_calls (sendState w) = worker_calls w"
  by (simp_all add: sendState_def)

lemma setJobData_fields [simp]:
  "p_gcodeList (setJobData fn l w) = l"
  "p_sdFile (setJobData fn l w) = p_sdFile w"
  "worker_calls (setJobData fn l w) = worker_calls w"
  by (simp_all add: setJobData_def Let_def)

lemma setProgressData_fields [simp]:
  "p_gcodeList (setProgressData a b c d w) = p_gcodeList w"
  "p_sdFile (setProgressData a b c d w) = p_sdFile w"
  "worker_calls (setProgressData a b c d w) = worker_calls w"
  by (simp_all add: setProgressData_def Let_def)

lemma startPrint_fields [simp]:
  "p_gcodeList (startPrint w) = p_gcodeList w"
  "p_sdFile (startPrint w) = p_sdFile w"
  "worker_calls (startPrint w) = worker_calls w"
  by (simp_all add: startPrint_def setCurrentZ_None Let_def split: option.splits)

lemma onGcodeLoaded_fields [simp]:
  "p_gcodeList (onGcodeLoaded fn l w) = Some l"
  "p_sdFile (onGcodeLoaded fn l w) = p_sdFile w"
  "worker_calls (onGcodeLoaded fn l w) = worker_calls w"
  by (simp_all add: onGcodeLoaded_def setCurrentZ_None Let_def)

lemma onLoadingProgress_fields [simp]:
  "p_gcodeList (GcodeLoader_onLoadingProgress fn p w) = p_gcodeList w"
  "p_sdFile (GcodeLoader_onLoadingProgress fn p w) = p_sdFile w"
  "worker_calls (GcodeLoader_onLoadingProgress fn p w) =
     worker_calls w @ [GcodeLoadingProgress fn p ''loading'']"
  by (simp_all add: GcodeLoader_onLoadingProgress_def onGcodeLoadingProgress_def)

lemma loadedCallback_fields:
  "p_gcodeList (GcodeLoader_loadedCallback self fn l w) = Some l"
  "p_sdFile (GcodeLoader_loadedCallback self fn l w) = p_sdFile w"
  "worker_calls (GcodeLoader_loadedCallback self fn l w) = worker_calls w @ [GcodeLoaded fn l]"
  by (cases "gl_loadedCallback self";
      simp add: GcodeLoader_loadedCallback_def onGcodeLoadedToPrint_def Let_def)+

subsection \<open>Refusal and acceptance\<close>

lemma startPrint_refused:
  "p_comm w = None \<or> \<not> isOperational w \<or> (p_gcodeList w = None \<and> p_sdFile w = None) \<or>
   isPrinting w \<Longrightarrow> startPrint w = w"
  by (cases "p_comm w") (auto simp: startPrint_def isOperational_def isPrinting_def)

lemma startPrint_accepted:
  assumes "p_comm w = Some r" "isOperational w" "p_gcodeList w \<noteq> None \<or> p_sdFile w \<noteq> None"
    "\<not> isPrinting w"
  shows "startPrint w =
     (if p_sdFile w \<noteq> None
      then call_comm r PrintSdFile ((setCurrentZ None w)\<lparr>p_sdPrinting := True\<rparr>)
      else call_comm r (PrintGCode (p_gcodeList w)) (setCurrentZ None w))"
proof -
  have "c_isOperational (comms w r)" "\<not> c_isPrinting (comms w r)"
    using assms by (simp_all add: isOperational_def isPrinting_def)
  then show ?thesis
    using assms(1,3)
    by (cases "p_sdFile w"; cases "p_gcodeList w")
       (simp_all add: startPrint_def Let_def setCurrentZ_None)
qed

lemma loadGcode_refused:
  "isPrinting w \<or> p_gcodeLoader w \<noteq> None \<Longrightarrow> loadGcode file printAfterLoading w = w"
  by (cases "p_comm w") (auto simp: loadGcode_def isPrinting_def)

lemma loadGcode_accepted:
  "\<not> (isPrinting w \<or> p_gcodeLoader w \<noteq> None) \<Longrightarrow>
     p_sdFile (loadGcode file printAfterLoading w) = None \<and>
     p_gcodeList (loadGcode file printAfterLoading w) = None"
  by (cases "p_comm w") (simp_all add: loadGcode_def isPrinting_def Let_def)

section \<open>Claim C6: the device file name\<close>

text \<open>
  Claim C6, as the code has it: for a local name \<open>stem.ext\<close>, where \<open>ext\<close> contains no
  dot, the device file name is the first 8 characters of \<open>stem\<close>, in the case they
  have, followed by \<^verbatim>\<open>.GCO\<close>.
\<close>

theorem sdFilename_of_stem:
  "CHR ''.'' \<notin> set ext \<Longrightarrow> sdFilename (stem @ ''.'' @ ext) = take 8 stem @ ''.GCO''"
  by (simp add: sdFilename_def rfind_char_last slice_to_def)

text \<open>The theorem at the local name \<^verbatim>\<open>my_long_model.gcode\<close>.\<close>

theorem sdFilename_of_stem_witness:
  "CHR ''.'' \<notin> set ''gcode'' \<and>
   sdFilename (''my_long_model'' @ ''.'' @ ''gcode'') = ''my_long_.GCO''"
  using sdFilename_of_stem [of "''gcode''" "''my_long_model''"] by simp

text \<open>
  Claim C6 as stated fails at its own example: the name derived from
  \<^verbatim>\<open>my_long_model.gcode\<close> is \<^verbatim>\<open>my_long_.GCO\<close>, not \<^verbatim>\<open>MY_LONG_M.GCO\<close>.
\<close>

theorem sdFilename_not_uppercased:
  "sdFilename ''my_long_model.gcode'' = ''my_long_.GCO'' \<and>
   sdFilename ''my_long_model.gcode'' \<noteq> ''MY_LONG_M.GCO''"
  by (simp add: sdFilename_def slice_to_def rfind_char_def)

section \<open>Claim C5: dispatch to every observer\<close>

text \<open>No dispatch raises, whatever the handlers do.\<close>

lemma dispatch_never_raises: "snd (dispatch ev w) = None"
proof -
  have "snd (send_loop e 0 w) = None" for e
    using send_loop_frame [of e 0 w] by (elim exE) simp
  then show ?thesis
    by (cases ev) (simp_all add: dispatch_defs)
qed

text \<open>
  When no handler unregisters an observer, the loop calls every registered observer
  from its index on, in the order of registration, and keeps the list.
\<close>

lemma send_loop_reaches_all:
  "\<forall>cb\<in>set (p_callbacks w). \<forall>s. fst (snd (o_handler cb ev s)) = [] \<Longrightarrow>
   delivered (fst (send_loop ev i w)) =
     delivered w @ map (\<lambda>cb. (o_id cb, ev)) (drop i (p_callbacks w)) \<and>
   p_callbacks (fst (send_loop ev i w)) = p_callbacks w"
proof (induction ev i w rule: send_loop.induct)
  case (1 ev i w)
  show ?case
  proof (cases "i < length (p_callbacks w)")
    case False
    then show ?thesis by (subst (1 2) send_loop.simps) simp
  next
    case True
    define cb where "cb = p_callbacks w ! i"
    obtain s' ks e where h: "o_handler cb ev (observers_state w) = (s', ks, e)"
      by (cases "o_handler cb ev (observers_state w)")
    have "cb \<in> set (p_callbacks w)"
      using True by (simp add: cb_def)
    then have "fst (snd (o_handler cb ev (observers_state w))) = []"
      using "1.prems" by blast
    then have ks: "ks = []" by (simp add: h)
    define w1 where "w1 = w\<lparr>observers_state := s', delivered := delivered w @ [(o_id cb, ev)]\<rparr>"
    have one: "try_except_pass (invoke (p_callbacks w ! i) ev) w = (w1, None)"
      using h ks by (simp add: try_except_pass_def invoke_def cb_def [symmetric] w1_def)
    have same: "p_callbacks w1 = p_callbacks w"
      by (simp add: w1_def)
    have ih: "delivered (fst (send_loop ev (Suc i) w1)) =
        delivered w1 @ map (\<lambda>cb. (o_id cb, ev)) (drop (Suc i) (p_callbacks w1)) \<and>
      p_callbacks (fst (send_loop ev (Suc i) w1)) = p_callbacks w1"
      using "1.IH" [OF True one [symmetric] refl] "1.prems" same by simp
    have unfold: "send_loop ev i w = send_loop ev (Suc i) w1"
      using True one by (subst send_loop.simps) simp
    have "drop i (p_callbacks w) = cb # drop (Suc i) (p_callbacks w)"
      using True by (simp add: cb_def Cons_nth_drop_Suc)
    then show ?thesis
      unfolding unfold using ih same by (simp add: w1_def)
  qed
qed

text \<open>
  With two observers that unregister nothing, the first of which always raises, the
  second receives the log line.
\<close>

lemma dispatch_past_raising_observer:
  "snd (dispatch (AddLog ''ok'') w_observed) = None \<and>
   delivered (fst (dispatch (AddLog ''ok'') w_observed)) =
     [(0, AddLog ''ok''), (1, AddLog ''ok'')] \<and>
   observers_state (fst (dispatch (AddLog ''ok'') w_observed)) = 1"
  by code_simp

text \<open>
  Claim C5 fails in the code: of two registered observers the first unregisters
  itself in its handler and raises. The dispatch of a log line raises nothing, but it
  calls the first observer only: the second, registered before the dispatch and after
  it, has moved into the place just served and is passed over.
\<close>

theorem dispatch_skips_observer:
  "map o_id (p_callbacks w_leaving) = [0, 1] \<and>
   snd (dispatch (AddLog ''ok'') w_leaving) = None \<and>
   delivered (fst (dispatch (AddLog ''ok'') w_leaving)) = [(0, AddLog ''ok'')] \<and>
   observers_state (fst (dispatch (AddLog ''ok'') w_leaving)) = 0 \<and>
   map o_id (p_callbacks (fst (dispatch (AddLog ''ok'') w_leaving))) = [1]"
  by code_simp

section \<open>Claim C4: the worked example of the GcodeLoader\<close>

lemma GcodeLoader_loop_example:
  "GcodeLoader_loop fn 48 (f_reads (example_file t1 t2 t3 t4)) ''CUSTOM'' ''CUSTOM''
     [Bare ''M110 N0''] w =
   (GcodeLoader_onLoadingProgress fn 1
     (GcodeLoader_onLoadingProgress fn (real t4 / 48)
       (GcodeLoader_onLoadingProgress fn (real t3 / 48)
         (GcodeLoader_onLoadingProgress fn (real t2 / 48)
           (GcodeLoader_onLoadingProgress fn (real t1 / 48) w)))), Inr example_gcodeList)"
  by (simp add: example_file_def example_gcodeList_def Let_def startswith_def cut_comment_def
      slice_to_def slice_from_def find_char_def strip_example float_div_def)

text \<open>
  Claim C4: on the example file the GcodeLoader raises nothing, hands the command list
  \<^verbatim>\<open>["M110 N0", "G1 X1", ("G1 X2", "WALL-OUTER"), "G1 X3"]\<close> to the loaded-callback,
  which makes it the Printer's command list, and reports progress once per line, the
  last report being exactly 1.
\<close>

theorem GcodeLoader_run_example:
  "snd (GcodeLoader_run self (example_file t1 t2 t3 t4) w) = None \<and>
   p_gcodeList (fst (GcodeLoader_run self (example_file t1 t2 t3 t4) w)) =
     Some [Bare ''M110 N0'', Bare ''G1 X1'', Typed ''G1 X2'' ''WALL-OUTER'', Bare ''G1 X3''] \<and>
   worker_calls (fst (GcodeLoader_run self (example_file t1 t2 t3 t4) w)) =
     worker_calls w @
       [GcodeLoadingProgress (gl_filename self) (real t1 / 48) ''loading'',
        GcodeLoadingProgress (gl_filename self) (real t2 / 48) ''loading'',
        GcodeLoadingProgress (gl_filename self) (real t3 / 48) ''loading'',
        GcodeLoadingProgress (gl_filename self) (real t4 / 48) ''loading'',
        GcodeLoadingProgress (gl_filename self) 1 ''loading'',
        GcodeLoaded (gl_filename self)
          [Bare ''M110 N0'', Bare ''G1 X1'', Typed ''G1 X2'' ''WALL-OUTER'', Bare ''G1 X3'']]"
proof -
  have run: "GcodeLoader_run self (example_file t1 t2 t3 t4) w =
    (GcodeLoader_loadedCallback self (gl_filename self) example_gcodeList
      (GcodeLoader_onLoadingProgress (gl_filename self) 1
        (GcodeLoader_onLoadingProgress (gl_filename self) (real t4 / 48)
          (GcodeLoader_onLoadingProgress (gl_filename self) (real t3 / 48)
            (GcodeLoader_onLoadingProgress (gl_filename self) (real t2 / 48)
              (GcodeLoader_onLoadingProgress (gl_filename self) (real t1 / 48) w))))), None)"
    unfolding GcodeLoader_run_def
    using GcodeLoader_loop_example [of "gl_filename self" t1 t2 t3 t4 w]
    by (simp add: example_file_def)
  show ?thesis
    unfolding run by (simp add: loadedCallback_fields) (simp add: example_gcodeList_def)
qed

text \<open>
  The theorem for the loader of \<open>w_loading\<close>, with \<^verbatim>\<open>tell()\<close> reporting the bytes
  read so far.
\<close>

theorem GcodeLoader_run_example_witness:
  "snd (GcodeLoader_run \<lparr>gl_filename = ''a.gcode'', gl_loadedCallback = OnGcodeLoaded\<rparr>
     (example_file 6 23 39 43) w_loading) = None \<and>
   p_gcodeList (fst (GcodeLoader_run \<lparr>gl_filename = ''a.gcode'', gl_loadedCallback = OnGcodeLoaded\<rparr>
     (example_file 6 23 39 43) w_loading)) =
     Some [Bare ''M110 N0'', Bare ''G1 X1'', Typed ''G1 X2'' ''WALL-OUTER'', Bare ''G1 X3''] \<and>
   last (worker_calls (fst (GcodeLoader_run
     \<lparr>gl_filename = ''a.gcode'', gl_loadedCallback = OnGcodeLoaded\<rparr>
     (example_file 6 23 39 43) w_loading))) =
     GcodeLoaded ''a.gcode''
       [Bare ''M110 N0'', Bare ''G1 X1'', Typed ''G1 X2'' ''WALL-OUTER'', Bare ''G1 X3'']"
  using GcodeLoader_run_example
    [of "\<lparr>gl_filename = ''a.gcode'', gl_loadedCallback = OnGcodeLoaded\<rparr>" 6 23 39 43 w_loading]
  by simp

section \<open>Claim C9: commands without a Communicator\<close>

text \<open>
  Claim C9 fails in the code: with no Communicator, \<^verbatim>\<open>commands(["M105"])\<close> and
  \<^verbatim>\<open>command("M105")\<close> leave the state as it is but raise \<^verbatim>\<open>AttributeError\<close>.
\<close>

theorem commands_without_comm_raises:
  "p_comm fresh = None \<and>
   commands [''M105''] fresh = (fresh, Some AttributeError) \<and>
   command ''M105'' fresh = (fresh, Some AttributeError)"
  by (simp add: command_def commands_def fresh_def Printer_init_def stateMonitor_def Let_def)

text \<open>
  With a Communicator, the commands are forwarded as they are and in their order, and
  nothing is raised.
\<close>

lemma commands_connected:
  "p_comm w = Some r \<Longrightarrow>
   snd (commands cmds w) = None \<and> p_comm (fst (commands cmds w)) = Some r \<and>
   c_calls (comms (fst (commands cmds w)) r) = c_calls (comms w r) @ map SendCommand cmds"
proof (induction cmds arbitrary: w)
  case Nil
  then show ?case by (simp add: commands_def)
next
  case (Cons c cs)
  have step: "commands (c # cs) w = commands cs (call_comm r (SendCommand c) w)"
    using Cons.prems by (simp add: commands_def)
  have "p_comm (call_comm r (SendCommand c) w) = Some r"
    using Cons.prems by (simp add: call_comm_def)
  from Cons.IH [OF this] show ?case
    by (simp add: step) (simp add: call_comm_def)
qed

section \<open>Claim C8: loadGcode while printing or loading\<close>

text \<open>
  Claim C8: when a print is in progress or a GcodeLoader exists, \<^verbatim>\<open>loadGcode\<close> leaves
  the whole state as it is: no loader is created, the loader in flight keeps its file
  and callback, and the SD file selection and the job data stay.
\<close>

theorem loadGcode_noop_when_busy:
  "isPrinting w \<or> p_gcodeLoader w \<noteq> None \<Longrightarrow> loadGcode file printAfterLoading w = w"
  by (rule loadGcode_refused)

text \<open>The theorem for a second load while the loader of \<^verbatim>\<open>a.gcode\<close> is in flight.\<close>

theorem loadGcode_noop_when_busy_witness:
  "p_gcodeLoader w_loading = Some \<lparr>gl_filename = ''a.gcode'', gl_loadedCallback = OnGcodeLoaded\<rparr> \<and>
   loadGcode ''b.gcode'' True w_loading = w_loading"
proof -
  have l: "p_gcodeLoader w_loading =
      Some \<lparr>gl_filename = ''a.gcode'', gl_loadedCallback = OnGcodeLoaded\<rparr>"
    by code_simp
  then have "isPrinting w_loading \<or> p_gcodeLoader w_loading \<noteq> None"
    by simp
  from loadGcode_noop_when_busy [OF this] l show ?thesis
    by simp
qed

section \<open>Claim C1: startPrint\<close>

text \<open>
  Claim C1, as the code has it: \<^verbatim>\<open>startPrint\<close> leaves the whole state as it is, the
  Communicator's call log included, when there is no Communicator, when the
  Communicator is not operational, when neither a command list nor an SD file is set,
  or when a print is in progress. Otherwise it resets the current Z, in the Printer and
  in the StateMonitor, leaves the progress data as they are, and then calls
  \<^verbatim>\<open>printSdFile()\<close>, the SD-printing flag set, if an SD file is selected, and else
  \<^verbatim>\<open>printGCode\<close> with the command list; no other Communicator is touched.
\<close>

theorem startPrint_noop_or_delegates:
  "(p_comm w = None \<or> \<not> isOperational w \<or> (p_gcodeList w = None \<and> p_sdFile w = None) \<or>
    isPrinting w \<longrightarrow> startPrint w = w) \<and>
   (p_comm w = Some r \<and> isOperational w \<and> (p_gcodeList w \<noteq> None \<or> p_sdFile w \<noteq> None) \<and>
    \<not> isPrinting w \<longrightarrow>
      p_currentZ (startPrint w) = None \<and>
      sm_currentZ (p_stateMonitor (startPrint w)) = None \<and>
      p_progress (startPrint w) = p_progress w \<and>
      p_printTime (startPrint w) = p_printTime w \<and>
      p_printTimeLeft (startPrint w) = p_printTimeLeft w \<and>
      sm_progress (p_stateMonitor (startPrint w)) = sm_progress (p_stateMonitor w) \<and>
      p_sdPrinting (startPrint w) = (p_sdFile w \<noteq> None \<or> p_sdPrinting w) \<and>
      c_calls (comms (startPrint w) r) =
        c_calls (comms w r) @
          [if p_sdFile w \<noteq> None then PrintSdFile else PrintGCode (p_gcodeList w)] \<and>
      (\<forall>r'. r' \<noteq> r \<longrightarrow> comms (startPrint w) r' = comms w r'))"
proof (intro conjI impI)
  assume "p_comm w = None \<or> \<not> isOperational w \<or> (p_gcodeList w = None \<and> p_sdFile w = None) \<or>
    isPrinting w"
  then show "startPrint w = w" by (rule startPrint_refused)
next
  assume "p_comm w = Some r \<and> isOperational w \<and> (p_gcodeList w \<noteq> None \<or> p_sdFile w \<noteq> None) \<and>
    \<not> isPrinting w"
  then have eq: "startPrint w =
     (if p_sdFile w \<noteq> None
      then call_comm r PrintSdFile ((setCurrentZ None w)\<lparr>p_sdPrinting := True\<rparr>)
      else call_comm r (PrintGCode (p_gcodeList w)) (setCurrentZ None w))"
    by (intro startPrint_accepted) simp_all
  show "p_currentZ (startPrint w) = None"
    unfolding eq by (simp add: call_comm_def setCurrentZ_None)
  show "sm_currentZ (p_stateMonitor (startPrint w)) = None"
    unfolding eq by (simp add: call_comm_def setCurrentZ_None)
  show "p_progress (startPrint w) = p_progress w"
    unfolding eq by (simp add: call_comm_def setCurrentZ_None)
  show "p_printTime (startPrint w) = p_printTime w"
    unfolding eq by (simp add: call_comm_def setCurrentZ_None)
  show "p_printTimeLeft (startPrint w) = p_printTimeLeft w"
    unfolding eq by (simp add: call_comm_def setCurrentZ_None)
  show "sm_progress (p_stateMonitor (startPrint w)) = sm_progress (p_stateMonitor w)"
    unfolding eq by (simp add: call_comm_def setCurrentZ_None)
  show "p_sdPrinting (startPrint w) = (p_sdFile w \<noteq> None \<or> p_sdPrinting w)"
    unfolding eq by (simp add: call_comm_def setCurrentZ_None)
  show "c_calls (comms (startPrint w) r) =
      c_calls (comms w r) @
        [if p_sdFile w \<noteq> None then PrintSdFile else PrintGCode (p_gcodeList w)]"
    unfolding eq by (simp add: call_comm_def setCurrentZ_None)
  show "\<forall>r'. r' \<noteq> r \<longrightarrow> comms (startPrint w) r' = comms w r'"
    unfolding eq by (simp add: call_comm_def setCurrentZ_None)
qed

text \<open>
  The theorem on a fresh Printer, which has no Communicator, and on the Printer after
  an SD print, which accepts the call.
\<close>

theorem startPrint_noop_or_delegates_witness:
  "(p_comm fresh = None \<and> startPrint fresh = fresh) \<and>
   (p_comm w_sd_printed = Some 0 \<and> isOperational w_sd_printed \<and>
    p_sdFile w_sd_printed = Some ''A.GCO'' \<and> \<not> isPrinting w_sd_printed \<and>
    p_currentZ (startPrint w_sd_printed) = None \<and>
    p_progress (startPrint w_sd_printed) = p_progress w_sd_printed \<and>
    c_calls (comms (startPrint w_sd_printed) 0) =
      c_calls (comms w_sd_printed 0) @ [PrintSdFile])"
proof -
  have a: "p_comm fresh = None"
    by code_simp
  have b: "p_comm w_sd_printed = Some 0 \<and> isOperational w_sd_printed \<and>
    p_sdFile w_sd_printed = Some ''A.GCO'' \<and> \<not> isPrinting w_sd_printed"
    by code_simp
  from a startPrint_noop_or_delegates [of fresh 0] have "startPrint fresh = fresh"
    by simp
  moreover from b startPrint_noop_or_delegates [of w_sd_printed 0]
  have "p_currentZ (startPrint w_sd_printed) = None \<and>
    p_progress (startPrint w_sd_printed) = p_progress w_sd_printed \<and>
    c_calls (comms (startPrint w_sd_printed) 0) =
      c_calls (comms w_sd_printed 0) @ [PrintSdFile]"
    by simp
  ultimately show ?thesis
    using a b by simp
qed

text \<open>
  Claim C1 as stated fails: after an SD print has ended with the progress at 1, all
  preconditions of \<^verbatim>\<open>startPrint\<close> hold, and the call leaves the progress at 1, in
  the Printer and in the StateMonitor.
\<close>

theorem startPrint_keeps_progress:
  "p_comm w_sd_printed = Some 0 \<and> isOperational w_sd_printed \<and>
   p_sdFile w_sd_printed = Some ''A.GCO'' \<and> \<not> isPrinting w_sd_printed \<and>
   p_progress w_sd_printed = Some 1 \<and>
   p_progress (startPrint w_sd_printed) = Some 1 \<and>
   sm_progress (p_stateMonitor (startPrint w_sd_printed)) =
     Some \<lparr>pd_progress = Some 1, pd_currentLine = Some None, pd_printTime = None,
            pd_printTimeLeft = None\<rparr> \<and>
   c_calls (comms (startPrint w_sd_printed) 0) =
     [SelectSdFile ''A.GCO'', PrintSdFile, PrintSdFile]"
  by code_simp

section \<open>Claim C3: the bounded histories\<close>

lemma append_bounded:
  "is_append x \<Longrightarrow> histories_bounded w \<Longrightarrow> histories_bounded (step x w)"
  by (cases x)
     (simp_all add: histories_bounded_def mcLog_def mcMessage_def mcTempUpdate_def
        addLog_fields addMessage_fields addTemperatureData_fields slice_last_length)

lemma appends_bounded:
  "\<forall>x\<in>set ops. is_append x \<Longrightarrow> histories_bounded w \<Longrightarrow> histories_bounded (after ops w)"
  unfolding after_def
  by (induction ops arbitrary: w) (simp_all add: append_bounded)

lemma init_bounded: "histories_bounded (Printer_init archive sd s0)"
  by (simp add: histories_bounded_def Printer_init_def stateMonitor_def Let_def)

text \<open>
  Claim C3: after every sequence of log, message and temperature callbacks on a new
  Printer, the log history, the message history and the four temperature series hold
  at most 300 entries each; and an append to a history of 300 entries drops its first
  entry and keeps the others in their order, the new entry last.
\<close>

theorem histories_capped_at_300:
  "((\<forall>x\<in>set ops. is_append x) \<longrightarrow> histories_bounded (after ops (Printer_init archive sd s0))) \<and>
   (length (p_log w) = 300 \<longrightarrow> p_log (mcLog line w) = tl (p_log w) @ [line]) \<and>
   (length (p_messages w) = 300 \<longrightarrow>
      p_messages (mcMessage message w) = tl (p_messages w) @ [message]) \<and>
   (length (p_temps_actual w) = 300 \<longrightarrow>
      p_temps_actual (mcTempUpdate now temp bedTemp targetTemp bedTargetTemp w) =
        tl (p_temps_actual w) @ [(now, temp)]) \<and>
   (length (p_temps_target w) = 300 \<longrightarrow>
      p_temps_target (mcTempUpdate now temp bedTemp targetTemp bedTargetTemp w) =
        tl (p_temps_target w) @ [(now, targetTemp)]) \<and>
   (length (p_temps_actualBed w) = 300 \<longrightarrow>
      p_temps_actualBed (mcTempUpdate now temp bedTemp targetTemp bedTargetTemp w) =
        tl (p_temps_actualBed w) @ [(now, bedTemp)]) \<and>
   (length (p_temps_targetBed w) = 300 \<longrightarrow>
      p_temps_targetBed (mcTempUpdate now temp bedTemp targetTemp bedTargetTemp w) =
        tl (p_temps_targetBed w) @ [(now, bedTargetTemp)])"
proof (intro conjI impI)
  assume "\<forall>x\<in>set ops. is_append x"
  then show "histories_bounded (after ops (Printer_init archive sd s0))"
    by (rule appends_bounded) (rule init_bounded)
next
  assume "length (p_log w) = 300"
  then show "p_log (mcLog line w) = tl (p_log w) @ [line]"
    by (simp add: mcLog_def addLog_fields slice_last_full)
next
  assume "length (p_messages w) = 300"
  then show "p_messages (mcMessage message w) = tl (p_messages w) @ [message]"
    by (simp add: mcMessage_def addMessage_fields slice_last_full)
next
  assume "length (p_temps_actual w) = 300"
  then show "p_temps_actual (mcTempUpdate now temp bedTemp targetTemp bedTargetTemp w) =
      tl (p_temps_actual w) @ [(now, temp)]"
    by (simp add: mcTempUpdate_def addTemperatureData_fields slice_last_full)
next
  assume "length (p_temps_target w) = 300"
  then show "p_temps_target (mcTempUpdate now temp bedTemp targetTemp bedTargetTemp w) =
      tl (p_temps_target w) @ [(now, targetTemp)]"
    by (simp add: mcTempUpdate_def addTemperatureData_fields slice_last_full)
next
  assume "length (p_temps_actualBed w) = 300"
  then show "p_temps_actualBed (mcTempUpdate now temp bedTemp targetTemp bedTargetTemp w) =
      tl (p_temps_actualBed w) @ [(now, bedTemp)]"
    by (simp add: mcTempUpdate_def addTemperatureData_fields slice_last_full)
next
  assume "length (p_temps_targetBed w) = 300"
  then show "p_temps_targetBed (mcTempUpdate now temp bedTemp targetTemp bedTargetTemp w) =
      tl (p_temps_targetBed w) @ [(now, bedTargetTemp)]"
    by (simp add: mcTempUpdate_def addTemperatureData_fields slice_last_full)
qed

text \<open>
  The theorem for three appends on the fresh Printer, and for one more log line,
  message and temperature sample on a Printer whose histories are full.
\<close>

theorem histories_capped_at_300_witness:
  "is_append (McLog ''a'') \<and> is_append (McMessage ''b'') \<and>
   is_append (McTempUpdate 5 21 31 210 61) \<and>
   histories_bounded (after [McLog ''a'', McMessage ''b'', McTempUpdate 5 21 31 210 61] fresh) \<and>
   length (p_log w_full) = 300 \<and>
   p_log (mcLog ''new'' w_full) = replicate 299 ''ok'' @ [''new''] \<and>
   length (p_messages w_full) = 300 \<and>
   p_messages (mcMessage ''new'' w_full) = replicate 299 ''ok'' @ [''new''] \<and>
   length (p_temps_actual w_full) = 300 \<and>
   p_temps_actual (mcTempUpdate 5 22 32 220 62 w_full) = replicate 299 (1, 21) @ [(5, 22)] \<and>
   length (p_temps_target w_full) = 300 \<and>
   p_temps_target (mcTempUpdate 5 22 32 220 62 w_full) = replicate 299 (1, 210) @ [(5, 220)] \<and>
   length (p_temps_actualBed w_full) = 300 \<and>
   p_temps_actualBed (mcTempUpdate 5 22 32 220 62 w_full) = replicate 299 (1, 31) @ [(5, 32)] \<and>
   length (p_temps_targetBed w_full) = 300 \<and>
   p_temps_targetBed (mcTempUpdate 5 22 32 220 62 w_full) = replicate 299 (1, 61) @ [(5, 62)]"
proof -
  have full: "length (p_log w_full) = 300" "length (p_messages w_full) = 300"
    "length (p_temps_actual w_full) = 300" "length (p_temps_target w_full) = 300"
    "length (p_temps_actualBed w_full) = 300" "length (p_temps_targetBed w_full) = 300"
    by (simp_all add: w_full_def)
  have tails: "tl (p_log w_full) = replicate 299 ''ok''"
    "tl (p_messages w_full) = replicate 299 ''ok''"
    "tl (p_temps_actual w_full) = replicate 299 (1, 21)"
    "tl (p_temps_target w_full) = replicate 299 (1, 210)"
    "tl (p_temps_actualBed w_full) = replicate 299 (1, 31)"
    "tl (p_temps_targetBed w_full) = replicate 299 (1, 61)"
    by (simp_all add: w_full_def)
  have apps: "\<forall>x\<in>set [McLog ''a'', McMessage ''b'', McTempUpdate 5 21 31 210 61]. is_append x"
    by simp
  from histories_capped_at_300
    [where ops = "[McLog ''a'', McMessage ''b'', McTempUpdate 5 21 31 210 61]"
       and archive = "\<lambda>f. None" and sd = True and ?s0.0 = "()" and w = w_full
       and line = "''new''" and message = "''new''" and now = 5 and temp = 22
       and bedTemp = 32 and targetTemp = 220 and bedTargetTemp = 62]
    apps full
  have "histories_bounded
      (after [McLog ''a'', McMessage ''b'', McTempUpdate 5 21 31 210 61]
         (Printer_init (\<lambda>f. None) True ())) \<and>
    p_log (mcLog ''new'' w_full) = tl (p_log w_full) @ [''new''] \<and>
    p_messages (mcMessage ''new'' w_full) = tl (p_messages w_full) @ [''new''] \<and>
    p_temps_actual (mcTempUpdate 5 22 32 220 62 w_full) =
      tl (p_temps_actual w_full) @ [(5, 22)] \<and>
    p_temps_target (mcTempUpdate 5 22 32 220 62 w_full) =
      tl (p_temps_target w_full) @ [(5, 220)] \<and>
    p_temps_actualBed (mcTempUpdate 5 22 32 220 62 w_full) =
      tl (p_temps_actualBed w_full) @ [(5, 32)] \<and>
    p_temps_targetBed (mcTempUpdate 5 22 32 220 62 w_full) =
      tl (p_temps_targetBed w_full) @ [(5, 62)]"
    by blast
  then show ?thesis
    using full by (simp add: tails fresh_def)
qed

section \<open>Claim C7: the end of an upload\<close>

lemma progressCallback_eq:
  "SdFileStreamer_progressCallback name p w =
     w\<lparr>worker_calls := worker_calls w @ [SdFileStreamProgress name p],
       p_stateMonitor := StateMonitor_setSdUploadData
          (Some \<lparr>ud_filename = Some name, ud_progress = Some p\<rparr>) (p_stateMonitor w)\<rparr>"
  by (simp add: SdFileStreamer_progressCallback_def onSdFileStreamProgress_def stateMonitor_def)

text \<open>
  The loop of the upload calls neither the finish-callback nor
  \<^verbatim>\<open>endSdFileTransfer\<close>, and touches no job source and no loader, whatever the file
  and the Communicator do.
\<close>

lemma SdFileStreamer_loop_keeps:
  "filter is_SdFileStreamFinish (worker_calls (fst (SdFileStreamer_loop faults r name sz rs w))) =
     filter is_SdFileStreamFinish (worker_calls w) \<and>
   filter is_EndSdFileTransfer
       (c_calls (comms (fst (SdFileStreamer_loop faults r name sz rs w)) r')) =
     filter is_EndSdFileTransfer (c_calls (comms w r')) \<and>
   p_gcodeList (fst (SdFileStreamer_loop faults r name sz rs w)) = p_gcodeList w \<and>
   p_sdFile (fst (SdFileStreamer_loop faults r name sz rs w)) = p_sdFile w \<and>
   p_gcodeLoader (fst (SdFileStreamer_loop faults r name sz rs w)) = p_gcodeLoader w"
proof (induction rs arbitrary: w)
  case Nil
  show ?case by simp
next
  case (Cons x rs)
  show ?case
  proof (cases x)
    case ReadError
    then show ?thesis by simp
  next
    case (Line line pos)
    let ?line = "strip (cut_comment line)"
    let ?w1 = "call_comm r (SendCommand ?line) w"
    have sent_keeps:
      "filter is_SdFileStreamFinish (worker_calls ?w1) =
         filter is_SdFileStreamFinish (worker_calls w)"
      "filter is_EndSdFileTransfer (c_calls (comms ?w1 r')) =
         filter is_EndSdFileTransfer (c_calls (comms w r'))"
      "p_gcodeList ?w1 = p_gcodeList w" "p_sdFile ?w1 = p_sdFile w"
      "p_gcodeLoader ?w1 = p_gcodeLoader w"
      by (simp_all add: call_comm_def)
    have rest: "filter is_SdFileStreamFinish (worker_calls (fst
          (case float_div pos sz of
             Inl e \<Rightarrow> (v, Some e)
           | Inr progress \<Rightarrow>
               SdFileStreamer_loop faults r name sz rs
                 (SdFileStreamer_progressCallback name progress v)))) =
        filter is_SdFileStreamFinish (worker_calls v) \<and>
      filter is_EndSdFileTransfer (c_calls (comms (fst
          (case float_div pos sz of
             Inl e \<Rightarrow> (v, Some e)
           | Inr progress \<Rightarrow>
               SdFileStreamer_loop faults r name sz rs
                 (SdFileStreamer_progressCallback name progress v))) r')) =
        filter is_EndSdFileTransfer (c_calls (comms v r')) \<and>
      p_gcodeList (fst
          (case float_div pos sz of
             Inl e \<Rightarrow> (v, Some e)
           | Inr progress \<Rightarrow>
               SdFileStreamer_loop faults r name sz rs
                 (SdFileStreamer_progressCallback name progress v))) = p_gcodeList v \<and>
      p_sdFile (fst
          (case float_div pos sz of
             Inl e \<Rightarrow> (v, Some e)
           | Inr progress \<Rightarrow>
               SdFileStreamer_loop faults r name sz rs
                 (SdFileStreamer_progressCallback name progress v))) = p_sdFile v \<and>
      p_gcodeLoader (fst
          (case float_div pos sz of
             Inl e \<Rightarrow> (v, Some e)
           | Inr progress \<Rightarrow>
               SdFileStreamer_loop faults r name sz rs
                 (SdFileStreamer_progressCallback name progress v))) = p_gcodeLoader v" for v :: "'a world"
      by (cases "sz = 0") (simp_all add: float_div_def Cons.IH progressCallback_eq)
    show ?thesis
    proof (cases "?line = []")
      case True
      then have "SdFileStreamer_loop faults r name sz (x # rs) w =
          (case float_div pos sz of
             Inl e \<Rightarrow> (w, Some e)
           | Inr progress \<Rightarrow>
               SdFileStreamer_loop faults r name sz rs
                 (SdFileStreamer_progressCallback name progress w))"
        using Line by (simp add: Let_def)
      then show ?thesis by (simp only: rest)
    next
      case False
      show ?thesis
      proof (cases "faults (c_calls (comms w r)) (SendCommand ?line)")
        case (Some e)
        then have "SdFileStreamer_loop faults r name sz (x # rs) w = (?w1, Some e)"
          using Line False by (simp add: Let_def try_comm_def)
        then show ?thesis by (simp add: sent_keeps)
      next
        case None
        then have "SdFileStreamer_loop faults r name sz (x # rs) w =
            (case float_div pos sz of
             Inl e \<Rightarrow> (?w1, Some e)
           | Inr progress \<Rightarrow>
               SdFileStreamer_loop faults r name sz rs
                 (SdFileStreamer_progressCallback name progress ?w1))"
          using Line False by (simp add: Let_def try_comm_def)
        then show ?thesis by (simp only: rest sent_keeps)
      qed
    qed
  qed
qed

lemma SdFileStreamer_try_keeps:
  "filter is_SdFileStreamFinish (worker_calls (fst (SdFileStreamer_try faults self name f w))) =
     filter is_SdFileStreamFinish (worker_calls w) \<and>
   filter is_EndSdFileTransfer
       (c_calls (comms (fst (SdFileStreamer_try faults self name f w)) r')) =
     filter is_EndSdFileTransfer (c_calls (comms w r')) \<and>
   p_gcodeList (fst (SdFileStreamer_try faults self name f w)) = p_gcodeList w \<and>
   p_sdFile (fst (SdFileStreamer_try faults self name f w)) = p_sdFile w \<and>
   p_gcodeLoader (fst (SdFileStreamer_try faults self name f w)) = p_gcodeLoader w"
proof (cases "f_size f")
  case None
  then show ?thesis by (simp add: SdFileStreamer_try_def)
next
  case (Some sz)
  show ?thesis
  proof (cases "f_open f")
    case False
    then show ?thesis using Some by (simp add: SdFileStreamer_try_def)
  next
    case True
    show ?thesis
    proof (cases "faults (c_calls (comms w (ss_comm self))) (StartSdFileTransfer name)")
      case None
      then show ?thesis
        using Some True
        by (simp add: SdFileStreamer_try_def try_comm_def SdFileStreamer_loop_keeps)
           (simp add: call_comm_def)
    next
      case (Some e)
      then show ?thesis
        using \<open>f_size f = Some sz\<close> True
        by (simp add: SdFileStreamer_try_def try_comm_def call_comm_def)
    qed
  qed
qed

lemma finishCallback_fields:
  "worker_calls (SdFileStreamer_finishCallback name w) = worker_calls w @ [SdFileStreamFinish name]"
  "comms (SdFileStreamer_finishCallback name w) = comms w"
  "p_sdStreamer (SdFileStreamer_finishCallback name w) = None"
  "p_gcodeLoader (SdFileStreamer_finishCallback name w) = p_gcodeLoader w"
  "p_gcodeList (SdFileStreamer_finishCallback name w) = p_gcodeList w"
  "p_sdFile (SdFileStreamer_finishCallback name w) = p_sdFile w"
  by (simp_all add: SdFileStreamer_finishCallback_def onSdFileStreamFinish_def sendState_def
      setProgressData_def setCurrentZ_None stateMonitor_def Let_def)

lemma SdFileStreamer_run_end_returns:
  "\<not> c_isBusy (comms w (ss_comm self)) \<Longrightarrow>
   \<forall>log. faults log (EndSdFileTransfer (sdFilename (ss_filename self))) = None \<Longrightarrow>
   SdFileStreamer_run self f faults w =
     (SdFileStreamer_finishCallback (sdFilename (ss_filename self))
        (call_comm (ss_comm self) (EndSdFileTransfer (sdFilename (ss_filename self)))
           (fst (SdFileStreamer_try faults self (sdFilename (ss_filename self)) f w))),
      snd (SdFileStreamer_try faults self (sdFilename (ss_filename self)) f w))"
  by (simp add: SdFileStreamer_run_def Let_def try_comm_def split: prod.splits)

text \<open>
  Claim C7, as the code has it: every run of an SdFileStreamer that passes the busy
  check and in which \<^verbatim>\<open>endSdFileTransfer\<close> returns, whatever else fails (no file, no
  read permission, a read error at any line, a size of zero, \<^verbatim>\<open>startSdFileTransfer\<close>
  or \<^verbatim>\<open>sendCommand\<close> raising at any point), calls \<^verbatim>\<open>endSdFileTransfer\<close> with the
  device file name exactly once, as the last call on its Communicator, and then the
  finish-callback with that name exactly once, as the last callback; after it the
  Printer holds no uploader, and is loading only if a GcodeLoader exists.
\<close>

theorem SdFileStreamer_finishes_once:
  "\<not> c_isBusy (comms w (ss_comm self)) \<and>
   (\<forall>log. faults log (EndSdFileTransfer (sdFilename (ss_filename self))) = None) \<longrightarrow>
     filter is_SdFileStreamFinish (worker_calls (fst (SdFileStreamer_run self f faults w))) =
       filter is_SdFileStreamFinish (worker_calls w) @
         [SdFileStreamFinish (sdFilename (ss_filename self))] \<and>
     last (worker_calls (fst (SdFileStreamer_run self f faults w))) =
       SdFileStreamFinish (sdFilename (ss_filename self)) \<and>
     filter is_EndSdFileTransfer
         (c_calls (comms (fst (SdFileStreamer_run self f faults w)) (ss_comm self))) =
       filter is_EndSdFileTransfer (c_calls (comms w (ss_comm self))) @
         [EndSdFileTransfer (sdFilename (ss_filename self))] \<and>
     last (c_calls (comms (fst (SdFileStreamer_run self f faults w)) (ss_comm self))) =
       EndSdFileTransfer (sdFilename (ss_filename self)) \<and>
     p_sdStreamer (fst (SdFileStreamer_run self f faults w)) = None \<and>
     isLoading (fst (SdFileStreamer_run self f faults w)) = (p_gcodeLoader w \<noteq> None)"
proof
  assume a: "\<not> c_isBusy (comms w (ss_comm self)) \<and>
   (\<forall>log. faults log (EndSdFileTransfer (sdFilename (ss_filename self))) = None)"
  then have nb: "\<not> c_isBusy (comms w (ss_comm self))"
    and ok: "\<forall>log. faults log (EndSdFileTransfer (sdFilename (ss_filename self))) = None"
    by simp_all
  note run = SdFileStreamer_run_end_returns
    [where w = w and self = self and faults = faults and f = f, OF nb ok]
  note keeps = SdFileStreamer_try_keeps [of faults self "sdFilename (ss_filename self)" f w]
  show "filter is_SdFileStreamFinish (worker_calls (fst (SdFileStreamer_run self f faults w))) =
       filter is_SdFileStreamFinish (worker_calls w) @
         [SdFileStreamFinish (sdFilename (ss_filename self))] \<and>
     last (worker_calls (fst (SdFileStreamer_run self f faults w))) =
       SdFileStreamFinish (sdFilename (ss_filename self)) \<and>
     filter is_EndSdFileTransfer
         (c_calls (comms (fst (SdFileStreamer_run self f faults w)) (ss_comm self))) =
       filter is_EndSdFileTransfer (c_calls (comms w (ss_comm self))) @
         [EndSdFileTransfer (sdFilename (ss_filename self))] \<and>
     last (c_calls (comms (fst (SdFileStreamer_run self f faults w)) (ss_comm self))) =
       EndSdFileTransfer (sdFilename (ss_filename self)) \<and>
     p_sdStreamer (fst (SdFileStreamer_run self f faults w)) = None \<and>
     isLoading (fst (SdFileStreamer_run self f faults w)) = (p_gcodeLoader w \<noteq> None)"
    unfolding run
    by (simp add: finishCallback_fields isLoading_def keeps) (simp add: call_comm_def keeps)
qed

text \<open>
  The theorem for the upload of \<^verbatim>\<open>my_long_model.gcode\<close> through an idle
  Communicator that fails to send the first line.
\<close>

theorem SdFileStreamer_finishes_once_witness:
  "\<not> c_isBusy (comms w_upload (ss_comm example_streamer)) \<and>
   (\<forall>log. send_fault log (EndSdFileTransfer (sdFilename (ss_filename example_streamer))) = None) \<and>
   snd (SdFileStreamer_run example_streamer (example_file 6 23 39 43) send_fault w_upload) =
     Some (Raised ''serial'') \<and>
   filter is_SdFileStreamFinish
       (worker_calls (fst (SdFileStreamer_run example_streamer (example_file 6 23 39 43)
          send_fault w_upload))) =
     [SdFileStreamFinish ''my_long_.GCO''] \<and>
   filter is_EndSdFileTransfer
       (c_calls (comms (fst (SdFileStreamer_run example_streamer (example_file 6 23 39 43)
          send_fault w_upload)) (ss_comm example_streamer))) =
     [EndSdFileTransfer ''my_long_.GCO''] \<and>
   p_sdStreamer (fst (SdFileStreamer_run example_streamer (example_file 6 23 39 43)
      send_fault w_upload)) = None \<and>
   \<not> isLoading (fst (SdFileStreamer_run example_streamer (example_file 6 23 39 43)
      send_fault w_upload))"
proof -
  have nb: "\<not> c_isBusy (comms w_upload (ss_comm example_streamer))"
    by code_simp
  have ok: "\<forall>log. send_fault log (EndSdFileTransfer (sdFilename (ss_filename example_streamer)))
      = None"
    by (simp add: send_fault_def)
  have before: "worker_calls w_upload = []" "c_calls (comms w_upload (ss_comm example_streamer)) = []"
    "p_gcodeLoader w_upload = None"
    "sdFilename (ss_filename example_streamer) = ''my_long_.GCO''"
    by code_simp+
  have raised: "snd (SdFileStreamer_run example_streamer (example_file 6 23 39 43) send_fault
      w_upload) = Some (Raised ''serial'')"
    by code_simp
  from SdFileStreamer_finishes_once
    [of w_upload example_streamer send_fault "example_file 6 23 39 43"] nb ok
  show ?thesis
    using raised by (simp add: before)
qed

text \<open>
  Claim C7 as stated fails: when the Communicator is busy, the run returns at once; it
  calls neither \<^verbatim>\<open>endSdFileTransfer\<close> nor the finish-callback, and the Printer keeps
  its uploader and stays loading.
\<close>

theorem SdFileStreamer_busy_never_finishes:
  "p_sdStreamer w_busy_upload = Some example_streamer \<and>
   c_isBusy (comms w_busy_upload (ss_comm example_streamer)) \<and>
   snd (SdFileStreamer_run example_streamer (example_file 6 23 39 43) no_faults w_busy_upload)
     = None \<and>
   worker_calls (fst (SdFileStreamer_run example_streamer (example_file 6 23 39 43) no_faults
      w_busy_upload)) = [] \<and>
   c_calls (comms (fst (SdFileStreamer_run example_streamer (example_file 6 23 39 43) no_faults
      w_busy_upload)) (ss_comm example_streamer)) = [] \<and>
   p_sdStreamer (fst (SdFileStreamer_run example_streamer (example_file 6 23 39 43) no_faults
      w_busy_upload)) = Some example_streamer \<and>
   isLoading (fst (SdFileStreamer_run example_streamer (example_file 6 23 39 43) no_faults
      w_busy_upload))"
  by code_simp

text \<open>
  A run in which \<^verbatim>\<open>endSdFileTransfer\<close> raises: the \<^verbatim>\<open>finally\<close> clause ends with
  that exception, before the finish-callback.
\<close>

lemma SdFileStreamer_end_fault:
  "\<not> c_isBusy (comms w_upload (ss_comm example_streamer)) \<and>
   snd (SdFileStreamer_run example_streamer (example_file 6 23 39 43) end_fault w_upload) =
     Some (Raised ''serial'') \<and>
   filter is_SdFileStreamFinish
       (worker_calls (fst (SdFileStreamer_run example_streamer (example_file 6 23 39 43)
          end_fault w_upload))) = [] \<and>
   p_sdStreamer (fst (SdFileStreamer_run example_streamer (example_file 6 23 39 43)
      end_fault w_upload)) = Some example_streamer"
  by code_simp

section \<open>Claim C10: the two job sources\<close>

lemma connect_fields [simp]:
  "p_gcodeList (connect c w) = p_gcodeList w"
  "p_sdFile (connect c w) = p_sdFile w"
  "p_gcodeList (disconnect w) = p_gcodeList w"
  "p_sdFile (disconnect w) = p_sdFile w"
  by (simp_all add: connect_def disconnect_def Let_def split: option.splits)

lemma commands_fields [simp]:
  "p_gcodeList (fst (commands cmds w)) = p_gcodeList w \<and>
   p_sdFile (fst (commands cmds w)) = p_sdFile w"
  unfolding commands_def
  by (induction cmds arbitrary: w) (simp_all split: option.splits)

lemma mcSdSelected_fields:
  "p_gcodeList (fst (mcSdSelected filename filesize w)) = None \<and>
   p_sdFile (fst (mcSdSelected filename filesize w)) = Some filename"
  by (simp add: mcSdSelected_def Let_def split: option.splits)

lemma mcSdPrintingDone_fields [simp]:
  "p_gcodeList (fst (mcSdPrintingDone w)) = p_gcodeList w"
  "p_sdFile (fst (mcSdPrintingDone w)) = p_sdFile w"
  by (simp_all add: mcSdPrintingDone_def Let_def split: option.splits)

lemma sd_operations_fields [simp]:
  "p_gcodeList (addSdFile a b w) = p_gcodeList w"
  "p_sdFile (addSdFile a b w) = p_sdFile w"
  "p_gcodeList (selectSdFile a c w) = p_gcodeList w"
  "p_sdFile (selectSdFile a c w) = p_sdFile w"
  "p_gcodeList (deleteSdFile a w) = p_gcodeList w"
  by (simp_all add: addSdFile_def selectSdFile_def deleteSdFile_def Let_def split: option.splits)

lemma deleteSdFile_sdFile:
  "p_sdFile (deleteSdFile a w) = None \<or> p_sdFile (deleteSdFile a w) = p_sdFile w"
  by (simp add: deleteSdFile_def Let_def split: option.splits)

lemma GcodeLoader_loop_fields:
  "p_gcodeList (fst (GcodeLoader_loop fn sz rs prev lt gl w)) = p_gcodeList w \<and>
   p_sdFile (fst (GcodeLoader_loop fn sz rs prev lt gl w)) = p_sdFile w"
proof (induction rs arbitrary: prev lt gl w)
  case Nil
  show ?case by simp
next
  case (Cons x rs)
  show ?case
  proof (cases x)
    case ReadError
    then show ?thesis by simp
  next
    case (Line line pos)
    show ?thesis
    proof (cases "sz = 0")
      case True
      then show ?thesis using Line by (simp add: float_div_def Let_def)
    next
      case False
      then show ?thesis using Line by (simp add: float_div_def Let_def Cons.IH)
    qed
  qed
qed

text \<open>
  A run of the GcodeLoader keeps the SD file selection; it keeps the command list
  (when it fails) or sets one.
\<close>

lemma GcodeLoader_run_fields:
  "p_sdFile (fst (GcodeLoader_run self f w)) = p_sdFile w \<and>
   (p_gcodeList (fst (GcodeLoader_run self f w)) = p_gcodeList w \<or>
    (\<exists>l. p_gcodeList (fst (GcodeLoader_run self f w)) = Some l))"
proof (cases "f_size f")
  case None
  then show ?thesis by (simp add: GcodeLoader_run_def)
next
  case (Some sz)
  show ?thesis
  proof (cases "f_open f")
    case False
    then show ?thesis using Some by (simp add: GcodeLoader_run_def)
  next
    case True
    obtain w1 res where loop:
      "GcodeLoader_loop (gl_filename self) sz (f_reads f) ''CUSTOM'' ''CUSTOM''
         [Bare ''M110 N0''] w = (w1, res)"
      by (cases "GcodeLoader_loop (gl_filename self) sz (f_reads f) ''CUSTOM'' ''CUSTOM''
         [Bare ''M110 N0''] w")
    have w1: "p_gcodeList w1 = p_gcodeList w" "p_sdFile w1 = p_sdFile w"
      using GcodeLoader_loop_fields [of "gl_filename self" sz "f_reads f" "''CUSTOM''"
          "''CUSTOM''" "[Bare ''M110 N0'']" w]
      by (simp_all add: loop)
    show ?thesis
      using Some True loop w1
      by (cases res) (simp_all add: GcodeLoader_run_def loadedCallback_fields)
  qed
qed

lemma SdFileStreamer_run_fields:
  "p_gcodeList (fst (SdFileStreamer_run self f faults w)) = p_gcodeList w \<and>
   p_sdFile (fst (SdFileStreamer_run self f faults w)) = p_sdFile w"
proof (cases "c_isBusy (comms w (ss_comm self))")
  case True
  then show ?thesis by (simp add: SdFileStreamer_run_def)
next
  case False
  let ?name = "sdFilename (ss_filename self)"
  obtain w1 exc where tr: "SdFileStreamer_try faults self ?name f w = (w1, exc)"
    by (cases "SdFileStreamer_try faults self ?name f w")
  have w1: "p_gcodeList w1 = p_gcodeList w" "p_sdFile w1 = p_sdFile w"
    using SdFileStreamer_try_keeps [of faults self ?name f w] by (simp_all add: tr)
  show ?thesis
  proof (cases "faults (c_calls (comms w1 (ss_comm self))) (EndSdFileTransfer ?name)")
    case None
    then show ?thesis
      using False
      by (simp add: SdFileStreamer_run_def Let_def tr try_comm_def finishCallback_fields w1)
  next
    case (Some e)
    then show ?thesis
      using False by (simp add: SdFileStreamer_run_def Let_def tr try_comm_def w1)
  qed
qed

text \<open>
  Every call keeps at most one of the two job sources printable, except the end of a
  GcodeLoader while an SD file is selected.
\<close>

lemma step_keeps_exclusion:
  assumes "at_most_one_printable w" "is_LoaderRuns x \<longrightarrow> p_sdFile w = None"
  shows "at_most_one_printable (step x w)"
proof (cases x)
  case (DoLoadGcode path printAfterLoading)
  show ?thesis
  proof (cases "isPrinting w \<or> p_gcodeLoader w \<noteq> None")
    case True
    then show ?thesis
      using assms DoLoadGcode by (simp add: loadGcode_refused)
  next
    case False
    then show ?thesis
      using DoLoadGcode loadGcode_accepted [OF False, of path printAfterLoading]
      by (simp add: at_most_one_printable_def local_printable_def sd_printable_def)
  qed
next
  case (DoDeleteSdFile filename)
  then show ?thesis
    using assms deleteSdFile_sdFile [of filename w]
    by (auto simp: at_most_one_printable_def local_printable_def sd_printable_def)
next
  case (McSdSelected filename filesize)
  then show ?thesis
    using mcSdSelected_fields [of filename filesize w]
    by (simp add: at_most_one_printable_def local_printable_def sd_printable_def)
next
  case (LoaderRuns f)
  show ?thesis
  proof (cases "p_gcodeLoader w")
    case None
    then show ?thesis using assms LoaderRuns by simp
  next
    case (Some loader)
    then show ?thesis
      using assms LoaderRuns GcodeLoader_run_fields [of loader f w]
      by (simp add: at_most_one_printable_def local_printable_def sd_printable_def)
  qed
next
  case (StreamerRuns f faults)
  show ?thesis
  proof (cases "p_sdStreamer w")
    case None
    then show ?thesis using assms StreamerRuns by simp
  next
    case (Some streamer)
    then show ?thesis
      using assms StreamerRuns SdFileStreamer_run_fields [of streamer f faults w]
      by (simp add: at_most_one_printable_def local_printable_def sd_printable_def)
  qed
qed (use assms in \<open>simp_all add: at_most_one_printable_def local_printable_def
       sd_printable_def mcLog_def mcMessage_def mcTempUpdate_def addLog_fields
       addMessage_fields addTemperatureData_fields\<close>)

text \<open>
  Claim C10 fails in the code: \<^verbatim>\<open>loadGcode\<close> clears the SD file selection and
  \<^verbatim>\<open>mcSdSelected\<close> clears the command list, but \<^verbatim>\<open>_onGcodeLoaded\<close> sets the
  command list and leaves the SD file selection. When an SD file is selected while a
  GcodeLoader is in flight, the end of the loader reaches a state in which both job
  sources are printable: the job data shown are those of \<^verbatim>\<open>a.gcode\<close> with its 4
  commands, and \<^verbatim>\<open>startPrint\<close> prints the SD file.
\<close>

theorem both_job_sources_printable:
  "p_gcodeList (after select_while_loading fresh) =
     Some [Bare ''M110 N0'', Bare ''G1 X1'', Typed ''G1 X2'' ''WALL-OUTER'', Bare ''G1 X3''] \<and>
   p_sdFile (after select_while_loading fresh) = Some ''B.GCO'' \<and>
   local_printable (after select_while_loading fresh) \<and>
   sd_printable (after select_while_loading fresh) \<and>
   \<not> at_most_one_printable (after select_while_loading fresh) \<and>
   sm_jobData (p_stateMonitor (after select_while_loading fresh)) =
     Some \<lparr>jd_filename = Some ''a.gcode'', jd_lines = Some 4, jd_estimatedPrintTime = None,
            jd_filament = None\<rparr> \<and>
   c_calls (comms (startPrint (after select_while_loading fresh)) 0) =
     [SelectSdFile ''B.GCO'', PrintSdFile]"
  by code_simp

section \<open>Claim C2: the rate-limited deliveries\<close>

lemma send_loop_stateMonitor:
  "p_stateMonitor (fst (send_loop ev i w)) = p_stateMonitor w"
  using send_loop_frame [of ev i w] by (elim exE) simp

text \<open>Every mutator sets the change event.\<close>

lemma mutate_stateMonitor:
  "sm_changeEvent (p_stateMonitor (mutate m w))"
proof (cases m)
  case (AddTemperatureM td)
  from StateMonitor_addTemperature_frame [of td w] show ?thesis
    unfolding AddTemperatureM by (elim exE) simp
next
  case (AddLogM l)
  from StateMonitor_addLog_frame [of l w] show ?thesis
    unfolding AddLogM by (elim exE) simp
next
  case (AddMessageM l)
  from StateMonitor_addMessage_frame [of l w] show ?thesis
    unfolding AddMessageM by (elim exE) simp
qed (simp_all add: stateMonitor_def StateMonitor_setCurrentZ_def StateMonitor_setState_def
      StateMonitor_setJobData_def StateMonitor_setGcodeData_def
      StateMonitor_setSdUploadData_def StateMonitor_setProgress_def)

lemma fold_mutate_keeps_event:
  "sm_changeEvent (p_stateMonitor w) \<Longrightarrow> sm_changeEvent (p_stateMonitor (fold mutate ms w))"
  by (induction ms arbitrary: w) (simp_all add: mutate_stateMonitor)

lemma fold_mutate_sets_event:
  "sm_changeEvent (p_stateMonitor w) \<or> ms \<noteq> [] \<Longrightarrow>
   sm_changeEvent (p_stateMonitor (fold mutate ms w))"
  by (cases ms) (simp_all add: fold_mutate_keeps_event mutate_stateMonitor)

lemma work_run_calls:
  "work_run (calls ms) (ws, w) = (ws, fold mutate (map snd ms) w)"
  unfolding work_run_def calls_def
  by (induction ms arbitrary: w) (simp_all split: prod.splits)

lemma work_run_append: "work_run (a @ b) s = work_run b (work_run a s)"
  by (simp add: work_run_def)

lemma wake_time:
  "(if 0 < rl - (t1 - lu) then t1 + (rl - (t1 - lu)) else t1) = max t1 (lu + rl)" for t1 :: real
  by (simp add: max_def)

text \<open>
  One turn of the loop: mutators are called, the worker wakes, more mutators are
  called while it sleeps, and it captures, delivers and clears when its sleep is over.
\<close>

lemma worker_iteration:
  assumes "ws_pc ws = AtWait" "sm_changeEvent (p_stateMonitor w) \<or> ms1 \<noteq> []"
    "max t1 (ws_lastUpdate ws + ws_ratelimit ws) \<le> t2"
  shows "work_run (calls ms1 @ [Wakes t1] @ calls ms2 @ [Captures t2, Delivers t3, Clears]) (ws, w) =
    (ws\<lparr>ws_lastUpdate := t3, ws_pc := AtWait,
        ws_sent := ws_sent ws @
          [(t3, StateMonitor_getCurrentData (p_stateMonitor (fold mutate (map snd (ms1 @ ms2)) w)))]\<rparr>,
     stateMonitor (\<lambda>m. m\<lparr>sm_changeEvent := False\<rparr>)
       (fst (sendCurrentDataCallbacks
          (StateMonitor_getCurrentData (p_stateMonitor (fold mutate (map snd (ms1 @ ms2)) w)))
          (fold mutate (map snd (ms1 @ ms2)) w))))"
proof -
  define w1 where "w1 = fold mutate (map snd ms1) w"
  define w2 where "w2 = fold mutate (map snd ms2) w1"
  define u where "u = max t1 (ws_lastUpdate ws + ws_ratelimit ws)"
  have w2: "w2 = fold mutate (map snd (ms1 @ ms2)) w"
    by (simp add: w2_def w1_def)
  have ev: "sm_changeEvent (p_stateMonitor w1)"
    unfolding w1_def using assms(2) by (intro fold_mutate_sets_event) simp
  have s1: "work_run (calls ms1) (ws, w) = (ws, w1)"
    by (simp add: work_run_calls w1_def)
  have s2: "work_run [Wakes t1] (ws, w1) = (ws\<lparr>ws_pc := AtSleep u\<rparr>, w1)"
    using assms(1) ev by (simp add: work_run_def Let_def wake_time u_def)
  have s3: "work_run (calls ms2) (ws\<lparr>ws_pc := AtSleep u\<rparr>, w1) = (ws\<lparr>ws_pc := AtSleep u\<rparr>, w2)"
    by (simp add: work_run_calls w2_def)
  have s4: "work_run [Captures t2, Delivers t3, Clears] (ws\<lparr>ws_pc := AtSleep u\<rparr>, w2) =
    (ws\<lparr>ws_lastUpdate := t3, ws_pc := AtWait,
        ws_sent := ws_sent ws @ [(t3, StateMonitor_getCurrentData (p_stateMonitor w2))]\<rparr>,
     stateMonitor (\<lambda>m. m\<lparr>sm_changeEvent := False\<rparr>)
       (fst (sendCurrentDataCallbacks (StateMonitor_getCurrentData (p_stateMonitor w2)) w2)))"
    using assms(3) by (simp add: work_run_def u_def)
  show ?thesis
    by (simp only: work_run_append s1 s2 s3 s4 w2 [symmetric])
qed

text \<open>Before the interval since the last delivery is over, the worker stays asleep.\<close>

lemma worker_still_asleep:
  assumes "ws_pc ws = AtWait" "sm_changeEvent (p_stateMonitor w) \<or> ms1 \<noteq> []"
    "t2 < ws_lastUpdate ws + ws_ratelimit ws"
  shows "fst (work_run (calls ms1 @ [Wakes t1] @ calls ms2 @ [Captures t2, Delivers t3, Clears])
      (ws, w)) = ws\<lparr>ws_pc := AtSleep (max t1 (ws_lastUpdate ws + ws_ratelimit ws))\<rparr>"
proof -
  define w1 where "w1 = fold mutate (map snd ms1) w"
  define w2 where "w2 = fold mutate (map snd ms2) w1"
  define u where "u = max t1 (ws_lastUpdate ws + ws_ratelimit ws)"
  have ev: "sm_changeEvent (p_stateMonitor w1)"
    unfolding w1_def using assms(2) by (intro fold_mutate_sets_event) simp
  have s1: "work_run (calls ms1) (ws, w) = (ws, w1)"
    by (simp add: work_run_calls w1_def)
  have s2: "work_run [Wakes t1] (ws, w1) = (ws\<lparr>ws_pc := AtSleep u\<rparr>, w1)"
    using assms(1) ev by (simp add: work_run_def Let_def wake_time u_def)
  have s3: "work_run (calls ms2) (ws\<lparr>ws_pc := AtSleep u\<rparr>, w1) = (ws\<lparr>ws_pc := AtSleep u\<rparr>, w2)"
    by (simp add: work_run_calls w2_def)
  have "\<not> u \<le> t2"
    using assms(3) by (simp add: u_def)
  then have s4: "work_run [Captures t2, Delivers t3, Clears] (ws\<lparr>ws_pc := AtSleep u\<rparr>, w2) =
      (ws\<lparr>ws_pc := AtSleep u\<rparr>, w2)"
    by (simp add: work_run_def)
  have "fst (work_run (calls ms1 @ [Wakes t1] @ calls ms2 @ [Captures t2, Delivers t3, Clears])
      (ws, w)) = ws\<lparr>ws_pc := AtSleep u\<rparr>"
    by (simp only: work_run_append s1 s2 s3 s4 fst_conv)
  then show ?thesis
    by (simp only: u_def)
qed

lemma worker_idle:
  "ws_pc ws = AtWait \<Longrightarrow> \<not> sm_changeEvent (p_stateMonitor w) \<Longrightarrow> is_worker_tick e \<Longrightarrow>
   work_step e (ws, w) = (ws, w)"
  by (cases e) simp_all

text \<open>
  Claim C2, as the code has it. The mutator calls made from the first one after a
  delivery until the worker captures the state, those made during its sleep
  included, result in exactly one delivery, which carries the state after the last
  of them, and the event is cleared after it. The worker captures nothing before the
  rate-limit interval since the last delivery is over: until then it sleeps, and
  nothing is sent. And while no mutator has been called, no statement of the worker
  changes anything: an idle system sends nothing.
\<close>

theorem worker_delivers_once_per_interval:
  "(ws_pc ws = AtWait \<and> (sm_changeEvent (p_stateMonitor w) \<or> ms1 \<noteq> []) \<and>
    max t1 (ws_lastUpdate ws + ws_ratelimit ws) \<le> t2 \<longrightarrow>
      ws_sent (fst (work_run
          (calls ms1 @ [Wakes t1] @ calls ms2 @ [Captures t2, Delivers t3, Clears]) (ws, w))) =
        ws_sent ws @
          [(t3, StateMonitor_getCurrentData
                  (p_stateMonitor (fold mutate (map snd (ms1 @ ms2)) w)))] \<and>
      ws_lastUpdate (fst (work_run
          (calls ms1 @ [Wakes t1] @ calls ms2 @ [Captures t2, Delivers t3, Clears]) (ws, w))) = t3 \<and>
      ws_pc (fst (work_run
          (calls ms1 @ [Wakes t1] @ calls ms2 @ [Captures t2, Delivers t3, Clears]) (ws, w))) =
        AtWait \<and>
      \<not> sm_changeEvent (p_stateMonitor (snd (work_run
          (calls ms1 @ [Wakes t1] @ calls ms2 @ [Captures t2, Delivers t3, Clears]) (ws, w))))) \<and>
   (ws_pc ws = AtWait \<and> (sm_changeEvent (p_stateMonitor w) \<or> ms1 \<noteq> []) \<and>
    t2' < ws_lastUpdate ws + ws_ratelimit ws \<longrightarrow>
      fst (work_run
          (calls ms1 @ [Wakes t1] @ calls ms2 @ [Captures t2', Delivers t3, Clears]) (ws, w)) =
        ws\<lparr>ws_pc := AtSleep (max t1 (ws_lastUpdate ws + ws_ratelimit ws))\<rparr>) \<and>
   (ws_pc ws = AtWait \<and> \<not> sm_changeEvent (p_stateMonitor w) \<and> is_worker_tick e \<longrightarrow>
      work_step e (ws, w) = (ws, w))"
proof (intro conjI impI)
  assume a: "ws_pc ws = AtWait \<and> (sm_changeEvent (p_stateMonitor w) \<or> ms1 \<noteq> []) \<and>
    max t1 (ws_lastUpdate ws + ws_ratelimit ws) \<le> t2"
  then have run: "work_run
      (calls ms1 @ [Wakes t1] @ calls ms2 @ [Captures t2, Delivers t3, Clears]) (ws, w) =
    (ws\<lparr>ws_lastUpdate := t3, ws_pc := AtWait,
        ws_sent := ws_sent ws @
          [(t3, StateMonitor_getCurrentData (p_stateMonitor (fold mutate (map snd (ms1 @ ms2)) w)))]\<rparr>,
     stateMonitor (\<lambda>m. m\<lparr>sm_changeEvent := False\<rparr>)
       (fst (sendCurrentDataCallbacks
          (StateMonitor_getCurrentData (p_stateMonitor (fold mutate (map snd (ms1 @ ms2)) w)))
          (fold mutate (map snd (ms1 @ ms2)) w))))"
    by (intro worker_iteration) simp_all
  show "ws_sent (fst (work_run
          (calls ms1 @ [Wakes t1] @ calls ms2 @ [Captures t2, Delivers t3, Clears]) (ws, w))) =
        ws_sent ws @
          [(t3, StateMonitor_getCurrentData
                  (p_stateMonitor (fold mutate (map snd (ms1 @ ms2)) w)))]"
    unfolding run by simp
  show "ws_lastUpdate (fst (work_run
          (calls ms1 @ [Wakes t1] @ calls ms2 @ [Captures t2, Delivers t3, Clears]) (ws, w))) = t3"
    unfolding run by simp
  show "ws_pc (fst (work_run
          (calls ms1 @ [Wakes t1] @ calls ms2 @ [Captures t2, Delivers t3, Clears]) (ws, w))) =
        AtWait"
    unfolding run by simp
  show "\<not> sm_changeEvent (p_stateMonitor (snd (work_run
          (calls ms1 @ [Wakes t1] @ calls ms2 @ [Captures t2, Delivers t3, Clears]) (ws, w))))"
    unfolding run by (simp add: stateMonitor_def)
next
  assume "ws_pc ws = AtWait \<and> (sm_changeEvent (p_stateMonitor w) \<or> ms1 \<noteq> []) \<and>
    t2' < ws_lastUpdate ws + ws_ratelimit ws"
  then show "fst (work_run
          (calls ms1 @ [Wakes t1] @ calls ms2 @ [Captures t2', Delivers t3, Clears]) (ws, w)) =
        ws\<lparr>ws_pc := AtSleep (max t1 (ws_lastUpdate ws + ws_ratelimit ws))\<rparr>"
    by (intro worker_still_asleep) simp_all
next
  assume "ws_pc ws = AtWait \<and> \<not> sm_changeEvent (p_stateMonitor w) \<and> is_worker_tick e"
  then show "work_step e (ws, w) = (ws, w)"
    by (intro worker_idle) simp_all
qed

text \<open>
  The theorem for the worker that has delivered the first snapshot at 0.5: the current
  Z is set at 0.6 and, while the worker sleeps, at 0.7; the delivery at 1.0 carries
  the second value; at 0.9 the worker would still sleep; and without a mutator call
  it does not wake.
\<close>

theorem worker_delivers_once_per_interval_witness:
  "ws_pc (fst after_first_delivery) = AtWait \<and>
   \<not> sm_changeEvent (p_stateMonitor (snd after_first_delivery)) \<and>
   ws_lastUpdate (fst after_first_delivery) + ws_ratelimit (fst after_first_delivery) = 1 \<and>
   map fst (ws_sent (fst (work_run
      (calls [(3 / 5, SetCurrentZ (Some (Millimetres 1)))] @ [Wakes (3 / 5)] @
       calls [(7 / 10, SetCurrentZ (Some (Millimetres 2)))] @
       [Captures 1, Delivers 1, Clears]) after_first_delivery))) = [1 / 2, 1] \<and>
   s_currentZ (snd (last (ws_sent (fst (work_run
      (calls [(3 / 5, SetCurrentZ (Some (Millimetres 1)))] @ [Wakes (3 / 5)] @
       calls [(7 / 10, SetCurrentZ (Some (Millimetres 2)))] @
       [Captures 1, Delivers 1, Clears]) after_first_delivery))))) = Some (Millimetres 2) \<and>
   ws_pc (fst (work_run
      (calls [(3 / 5, SetCurrentZ (Some (Millimetres 1)))] @ [Wakes (3 / 5)] @
       calls [(7 / 10, SetCurrentZ (Some (Millimetres 2)))] @
       [Captures (9 / 10), Delivers 1, Clears]) after_first_delivery)) = AtSleep 1 \<and>
   is_worker_tick (Wakes 5) \<and>
   work_step (Wakes 5) after_first_delivery = after_first_delivery"
proof -
  have q: "ws_pc (fst after_first_delivery) = AtWait"
    "\<not> sm_changeEvent (p_stateMonitor (snd after_first_delivery))"
    "ws_lastUpdate (fst after_first_delivery) + ws_ratelimit (fst after_first_delivery) = 1"
    "map fst (ws_sent (fst after_first_delivery)) = [1 / 2]"
    by code_simp+
  note inst = worker_delivers_once_per_interval
    [where ws = "fst after_first_delivery" and w = "snd after_first_delivery"
       and ?ms1.0 = "[(3 / 5, SetCurrentZ (Some (Millimetres 1)))]" and ?t1.0 = "3 / 5"
       and ?ms2.0 = "[(7 / 10, SetCurrentZ (Some (Millimetres 2)))]" and ?t2.0 = 1
       and ?t3.0 = 1 and t2' = "9 / 10" and e = "Wakes 5"]
  have a: "ws_sent (fst (work_run
      (calls [(3 / 5, SetCurrentZ (Some (Millimetres 1)))] @ [Wakes (3 / 5)] @
       calls [(7 / 10, SetCurrentZ (Some (Millimetres 2)))] @
       [Captures 1, Delivers 1, Clears]) after_first_delivery)) =
     ws_sent (fst after_first_delivery) @
       [(1, StateMonitor_getCurrentData (p_stateMonitor (fold mutate
          (map snd ([(3 / 5, SetCurrentZ (Some (Millimetres 1)))] @
                    [(7 / 10, SetCurrentZ (Some (Millimetres 2)))]))
          (snd after_first_delivery))))]"
    using inst q(1,3) by simp
  have b: "fst (work_run
      (calls [(3 / 5, SetCurrentZ (Some (Millimetres 1)))] @ [Wakes (3 / 5)] @
       calls [(7 / 10, SetCurrentZ (Some (Millimetres 2)))] @
       [Captures (9 / 10), Delivers 1, Clears]) after_first_delivery) =
     (fst after_first_delivery)\<lparr>ws_pc := AtSleep (max (3 / 5)
        (ws_lastUpdate (fst after_first_delivery) + ws_ratelimit (fst after_first_delivery)))\<rparr>"
    using inst q(1,3) by simp
  have c: "work_step (Wakes 5) after_first_delivery = after_first_delivery"
    using inst q(1,2) by simp
  have a1: "map fst (ws_sent (fst (work_run
      (calls [(3 / 5, SetCurrentZ (Some (Millimetres 1)))] @ [Wakes (3 / 5)] @
       calls [(7 / 10, SetCurrentZ (Some (Millimetres 2)))] @
       [Captures 1, Delivers 1, Clears]) after_first_delivery))) = [1 / 2, 1]"
    using a q(4) by simp
  have a2: "s_currentZ (snd (last (ws_sent (fst (work_run
      (calls [(3 / 5, SetCurrentZ (Some (Millimetres 1)))] @ [Wakes (3 / 5)] @
       calls [(7 / 10, SetCurrentZ (Some (Millimetres 2)))] @
       [Captures 1, Delivers 1, Clears]) after_first_delivery))))) = Some (Millimetres 2)"
    using a
    by (simp add: StateMonitor_getCurrentData_def stateMonitor_def StateMonitor_setCurrentZ_def)
  have b1: "ws_pc (fst (work_run
      (calls [(3 / 5, SetCurrentZ (Some (Millimetres 1)))] @ [Wakes (3 / 5)] @
       calls [(7 / 10, SetCurrentZ (Some (Millimetres 2)))] @
       [Captures (9 / 10), Delivers 1, Clears]) after_first_delivery)) = AtSleep 1"
    using b q(3) by simp
  show ?thesis
    using q(1,2,3) a1 a2 b1 c by simp
qed

text \<open>
  Claim C2 as stated fails: after an idle time, two mutator calls at 10.0 and 10.1,
  a window of 0.1 s, are delivered in two snapshots, at 10.0 and at 10.5, the first
  of which carries the state after the first call only.
\<close>

theorem worker_delivers_burst_twice:
  "sorted (tick_times burst_after_idle) \<and>
   map fst (ws_sent (fst (work_run burst_after_idle (work_init 0, fresh)))) =
     [1 / 2, 10, 21 / 2] \<and>
   map (\<lambda>x. s_currentZ (snd x)) (ws_sent (fst (work_run burst_after_idle (work_init 0, fresh)))) =
     [None, Some (Millimetres 1), Some (Millimetres 2)]"
  by code_simp

end
